theory Spec2Isabelle
  imports Complex_Main "HOL-Library.Word"
begin

section \<open>JavaScript strings\<close>

text \<open>
  A JavaScript string is a sequence of UTF-16 code units. A code unit is modelled by
  its number: every string of the program is a list of numbers below 65536, and what
  is proved for every list of numbers holds for every string. String literals of the
  source are ASCII and are written \<open>ascii ''...''\<close>.
\<close>

type_synonym code_unit = nat
type_synonym jsstring = "code_unit list"

definition ascii :: "string \<Rightarrow> jsstring" where
  "ascii s = map of_char s"

text \<open>
  \<open>String.prototype.trim\<close> removes the code units of WhiteSpace and LineTerminator
  from both ends: TAB, LF, VT, FF, CR, SP, NBSP, U+1680, U+2000 to U+200A, U+2028,
  U+2029, U+202F, U+205F, U+3000 and U+FEFF.
\<close>

definition isWhiteSpace :: "code_unit \<Rightarrow> bool" where
  "isWhiteSpace c \<longleftrightarrow>
     c = 9 \<or> c = 10 \<or> c = 11 \<or> c = 12 \<or> c = 13 \<or> c = 32 \<or> c = 160 \<or> c = 5760 \<or>
     (8192 \<le> c \<and> c \<le> 8202) \<or> c = 8232 \<or> c = 8233 \<or> c = 8239 \<or> c = 8287 \<or>
     c = 12288 \<or> c = 65279"

definition trim :: "jsstring \<Rightarrow> jsstring" where
  "trim s = rev (dropWhile isWhiteSpace (rev (dropWhile isWhiteSpace s)))"

text \<open>
  \<open>toLowerCase\<close> on the ASCII letters. The source applies it only to a string that
  matched one of the two patterns below, which admit ASCII code units only.
\<close>

definition toLowerCase :: "jsstring \<Rightarrow> jsstring" where
  "toLowerCase s = map (\<lambda>c. if 65 \<le> c \<and> c \<le> 90 then c + 32 else c) s"

text \<open>\<open>s.split(sep)\<close> for a separator of one code unit, and \<open>parts.join(sep)\<close>.\<close>

fun split :: "code_unit \<Rightarrow> jsstring \<Rightarrow> jsstring list" where
  "split sep [] = [[]]"
| "split sep (c # cs) =
     (if c = sep then [] # split sep cs
      else (case split sep cs of
              [] \<Rightarrow> [[c]]
            | p # ps \<Rightarrow> (c # p) # ps))"

fun join :: "code_unit \<Rightarrow> jsstring list \<Rightarrow> jsstring" where
  "join sep [] = []"
| "join sep [p] = p"
| "join sep (p # q # ps) = p @ sep # join sep (q # ps)"

section \<open>The rate-limited endpoint (api/generate)\<close>

subsection \<open>Constants\<close>

definition HOUR_SECONDS :: int where "HOUR_SECONDS = 60 * 60"
definition IP_LIMIT :: int where "IP_LIMIT = 20"
definition COOKIE_LIMIT :: int where "COOKIE_LIMIT = 30"
definition COMBINED_LIMIT :: int where "COMBINED_LIMIT = 50"
definition IP_KEY_PREFIX :: jsstring where "IP_KEY_PREFIX = ascii ''rl:ip:''"
definition COOKIE_KEY_PREFIX :: jsstring where "COOKIE_KEY_PREFIX = ascii ''rl:cookie:''"
definition COMBINED_KEY_PREFIX :: jsstring where "COMBINED_KEY_PREFIX = ascii ''rl:combined:''"
definition COOKIE_NAME :: jsstring where "COOKIE_NAME = ascii ''ideaspark_id''"

text \<open>
  The character class \<open>[0-9a-f]\<close> under the flag \<open>i\<close> (without \<open>u\<close>): a code unit
  matches when its canonical form, its upper case unless that leaves ASCII for a
  unit outside ASCII, is one of \<open>0-9A-F\<close>. These are the digits and the letters
  \<open>a-f\<close>, \<open>A-F\<close>, and nothing outside ASCII.
\<close>

definition is_hex :: "code_unit \<Rightarrow> bool" where
  "is_hex c \<longleftrightarrow> (48 \<le> c \<and> c \<le> 57) \<or> (97 \<le> c \<and> c \<le> 102) \<or> (65 \<le> c \<and> c \<le> 70)"

text \<open>
  A pattern is matched from the left: \<open>hex_run n\<close> is \<open>[0-9a-f]{n}\<close>, \<open>dash\<close> is the
  literal \<open>-\<close>; each returns the rest of the input, or \<open>None\<close> when it does not
  match. The anchors \<open>^\<close> and \<open>$\<close> ask for the whole input: the rest is empty.
\<close>

fun hex_run :: "nat \<Rightarrow> jsstring \<Rightarrow> jsstring option" where
  "hex_run 0 s = Some s"
| "hex_run (Suc n) [] = None"
| "hex_run (Suc n) (c # cs) = (if is_hex c then hex_run n cs else None)"

fun dash :: "jsstring \<Rightarrow> jsstring option" where
  "dash [] = None"
| "dash (c # cs) = (if c = 45 then Some cs else None)"

definition UUID_REGEX_test :: "jsstring \<Rightarrow> bool" where
  "UUID_REGEX_test s \<longleftrightarrow>
     Option.bind (Option.bind (Option.bind (Option.bind (Option.bind (Option.bind
       (Option.bind (Option.bind (hex_run 8 s) dash) (hex_run 4)) dash) (hex_run 4)) dash)
       (hex_run 4)) dash) (hex_run 12) = Some []"

definition HEX_64_REGEX_test :: "jsstring \<Rightarrow> bool" where
  "HEX_64_REGEX_test s \<longleftrightarrow> hex_run 64 s = Some []"

subsection \<open>Values of unknown type\<close>

datatype jsvalue =
    JUndefined
  | JNull
  | JString jsstring
  | JArray "jsvalue list"
  | JOther

text \<open>\<open>a ?? b\<close>, and \<open>pickFirst\<close> of the handler.\<close>

definition nullish :: "jsvalue \<Rightarrow> jsvalue \<Rightarrow> jsvalue" where
  "nullish a b = (case a of JUndefined \<Rightarrow> b | JNull \<Rightarrow> b | _ \<Rightarrow> a)"

definition pickFirst :: "jsvalue \<Rightarrow> jsvalue" where
  "pickFirst v = (case v of JArray [] \<Rightarrow> JUndefined | JArray (x # _) \<Rightarrow> x | _ \<Rightarrow> v)"

definition normalizeDeviceId :: "jsvalue \<Rightarrow> jsstring option" where
  "normalizeDeviceId v =
     (case v of
        JString s \<Rightarrow>
          (let trimmed = trim s in
           if HEX_64_REGEX_test trimmed then Some (toLowerCase trimmed)
           else if UUID_REGEX_test trimmed then Some (toLowerCase trimmed)
           else None)
      | _ \<Rightarrow> None)"


subsection \<open>Errors, the runtime, the request\<close>

text \<open>What the source throws, and what its external calls reject with.\<close>

datatype error =
    RedisNotConfigured
  | UpstashStatus nat
  | UnexpectedUpstashResponse
  | InvalidCounter
  | FetchRejected
  | JsonRejected
  | TypeError
  | SecurityError
  | RuntimeError

text \<open>
  The runtime both programs read: \<open>randomUUID\<close> is \<open>None\<close> when \<open>crypto.randomUUID\<close> is
  not a function, and otherwise what calling it gives (a rejection or the identifier);
  \<open>date_now\<close> is \<open>Date.now()\<close>.
\<close>

record runtime =
  randomUUID :: "(error + jsstring) option"
  date_now :: nat

text \<open>A number written in decimal, as a template literal prints \<open>Date.now()\<close>.\<close>

fun decimal :: "nat \<Rightarrow> jsstring" where
  "decimal n = (if n < 10 then [48 + n] else decimal (n div 10) @ [48 + n mod 10])"

declare decimal.simps [simp del]

text \<open>A value that is a string, \<open>null\<close> or \<open>undefined\<close> is truthy when it is a non-empty string.\<close>

definition truthy :: "jsstring option \<Rightarrow> bool" where
  "truthy v \<longleftrightarrow> (case v of None \<Rightarrow> False | Some s \<Rightarrow> s \<noteq> [])"

datatype header_value = Absent | Single jsstring | Multiple "jsstring list"

text \<open>
  The request, as far as the gate reads it: \<open>body_deviceId\<close> is \<open>parseBody(req).deviceId\<close>,
  \<open>query_deviceId\<close> is \<open>req.query.deviceId\<close>, \<open>cookie\<close> is \<open>req.headers.cookie\<close>,
  \<open>remoteAddress\<close> is \<open>req.socket?.remoteAddress\<close>. The category and the prompt built
  from it take no part in the gate and are left out. The parsed body is an object, as
  the return type of \<open>parseBody\<close> says: a body whose text parses to \<open>null\<close> makes line
  165 throw before the gate is reached, and is not a request of this record.
\<close>

record request =
  body_deviceId :: jsvalue
  query_deviceId :: jsvalue
  cookie :: "jsstring option"
  x_forwarded_for :: header_value
  x_real_ip :: header_value
  remoteAddress :: "jsstring option"

definition real_ip_or_peer :: "request \<Rightarrow> jsstring" where
  "real_ip_or_peer req =
     (case x_real_ip req of
        Single realIp \<Rightarrow> realIp
      | Multiple (realIp # _) \<Rightarrow> realIp
      | _ \<Rightarrow> (if truthy (remoteAddress req) then the (remoteAddress req) else ascii ''unknown''))"

text \<open>
  \<open>xff.split(',')[0].trim()\<close>: were the array empty, \<open>[0]\<close> would be \<open>undefined\<close> and
  \<open>.trim()\<close> would throw a TypeError.
\<close>

definition getClientIp :: "request \<Rightarrow> error + jsstring" where
  "getClientIp req =
     (case x_forwarded_for req of
        Single xff \<Rightarrow>
          (if length xff > 0
           then (case split 44 xff of [] \<Rightarrow> Inl TypeError | p # _ \<Rightarrow> Inr (trim p))
           else Inr (real_ip_or_peer req))
      | Multiple (x # _) \<Rightarrow> Inr (trim x)
      | _ \<Rightarrow> Inr (real_ip_or_peer req))"

definition cookie_part :: "(jsstring \<rightharpoonup> jsstring) \<Rightarrow> jsstring \<Rightarrow> (jsstring \<rightharpoonup> jsstring)" where
  "cookie_part acc part =
     (case split 61 (trim part) of
        [] \<Rightarrow> acc
      | name # rest \<Rightarrow> (if name = [] then acc else acc(name \<mapsto> join 61 rest)))"

definition parseCookies :: "request \<Rightarrow> (jsstring \<rightharpoonup> jsstring)" where
  "parseCookies req =
     (if \<not> truthy (cookie req) then Map.empty
      else foldl cookie_part Map.empty (split 59 (the (cookie req))))"

definition createCookie :: "jsstring \<Rightarrow> jsstring" where
  "createCookie v =
     COOKIE_NAME @ ascii ''='' @ v @
     ascii ''; Path=/; Max-Age=31536000; HttpOnly; Secure; SameSite=Lax''"

subsection \<open>The backing store\<close>

text \<open>
  A number of the program, or \<open>undefined\<close> where a destructured array is too short.
  INCR, TTL and EXPIRE answer with integers, so a finite number is an integer; for
  integers below \<open>2^53\<close> the double arithmetic of the source is exact, also
  \<open>Math.ceil(x / 60)\<close>.
\<close>

datatype jsnum = Missing | NaN | PosInfinity | NegInfinity | Finite int

definition isFinite :: "jsnum \<Rightarrow> bool" where
  "isFinite v \<longleftrightarrow> (case v of Finite _ \<Rightarrow> True | _ \<Rightarrow> False)"

text \<open>\<open>v < n\<close> and \<open>v >= n\<close> for a number \<open>n\<close>: both false on \<open>NaN\<close> and \<open>undefined\<close>.\<close>

definition js_less :: "jsnum \<Rightarrow> int \<Rightarrow> bool" where
  "js_less v n \<longleftrightarrow> (case v of Finite x \<Rightarrow> x < n | NegInfinity \<Rightarrow> True | _ \<Rightarrow> False)"

definition js_ge :: "jsnum \<Rightarrow> int \<Rightarrow> bool" where
  "js_ge v n \<longleftrightarrow> (case v of Finite x \<Rightarrow> x \<ge> n | PosInfinity \<Rightarrow> True | _ \<Rightarrow> False)"

definition the_int :: "jsnum \<Rightarrow> int" where
  "the_int v = (case v of Finite x \<Rightarrow> x | _ \<Rightarrow> 0)"

text \<open>\<open>Math.ceil(a / b)\<close> for integers \<open>a\<close> and \<open>b\<close>.\<close>

definition ceil_div :: "int \<Rightarrow> int \<Rightarrow> int" where
  "ceil_div a b = \<lceil>real_of_int a / real_of_int b\<rceil>"

datatype command = INCR jsstring | TTL jsstring | EXPIRE jsstring int

text \<open>
  What \<open>fetch\<close> and \<open>response.json()\<close> give: the call is rejected, or there is a
  response with its \<open>ok\<close> flag, its status and its body. An array body is given by the
  numbers \<open>Number(entry?.result ?? entry)\<close> of its entries.
\<close>

datatype json_body = JsonRejects | NotAnArray | Entries "jsnum list"

datatype fetch_result = FetchRejects | Response bool nat json_body

text \<open>The external calls a run makes, in order.\<close>

datatype event = Upstash "command list" | Gemini

datatype gemini_outcome = GeminiRejects | GeminiText "jsstring option"

text \<open>
  The server: \<open>random16\<close> is \<open>Math.random().toString(16).slice(2)\<close>, \<open>redis_configured\<close>
  says that REDIS_URL and REDIS_TOKEN are set, \<open>upstash\<close> answers a pipeline request,
  and \<open>gemini\<close> is the outcome of the generation call: a rejection (of the call, of
  its JSON, or of reading the candidate), or the text of the first candidate
  (\<open>None\<close> when the optional chain ends in \<open>undefined\<close>).
\<close>

record server = runtime +
  random16 :: jsstring
  redis_configured :: bool
  upstash :: "command list \<Rightarrow> fetch_result"
  gemini :: gemini_outcome

record RateContext =
  key :: jsstring
  limit :: int
  ttlSeconds :: int

record rate =
  allowed :: bool
  remainingMinutes :: int

text \<open>
  What \<open>runUpstash\<close> and \<open>runUpstashPipeline\<close> both start with: the check of the
  configuration, the POST to \<open>/pipeline\<close>, the check of the status and the reading of
  the JSON body (\<open>None\<close>: the body is not an array). A request that is sent is logged.
\<close>

definition fetch_pipeline ::
  "server \<Rightarrow> command list \<Rightarrow> event list \<Rightarrow> (error + jsnum list option) \<times> event list" where
  "fetch_pipeline env commands tr =
     (if \<not> redis_configured env then (Inl RedisNotConfigured, tr)
      else (case upstash env commands of
              FetchRejects \<Rightarrow> (Inl FetchRejected, tr @ [Upstash commands])
            | Response ok status body \<Rightarrow>
                (if \<not> ok then (Inl (UpstashStatus status), tr @ [Upstash commands])
                 else (case body of
                         JsonRejects \<Rightarrow> (Inl JsonRejected, tr @ [Upstash commands])
                       | NotAnArray \<Rightarrow> (Inr None, tr @ [Upstash commands])
                       | Entries xs \<Rightarrow> (Inr (Some xs), tr @ [Upstash commands])))))"

definition runUpstash :: "server \<Rightarrow> command \<Rightarrow> event list \<Rightarrow> (error + jsnum) \<times> event list" where
  "runUpstash env command tr =
     (case fetch_pipeline env [command] tr of
        (Inl e, tr') \<Rightarrow> (Inl e, tr')
      | (Inr None, tr') \<Rightarrow> (Inl UnexpectedUpstashResponse, tr')
      | (Inr (Some []), tr') \<Rightarrow> (Inl UnexpectedUpstashResponse, tr')
      | (Inr (Some (x # _)), tr') \<Rightarrow> (Inr x, tr'))"

definition runUpstashPipeline ::
  "server \<Rightarrow> command list \<Rightarrow> event list \<Rightarrow> (error + jsnum list) \<times> event list" where
  "runUpstashPipeline env commands tr =
     (case fetch_pipeline env commands tr of
        (Inl e, tr') \<Rightarrow> (Inl e, tr')
      | (Inr None, tr') \<Rightarrow> (Inl UnexpectedUpstashResponse, tr')
      | (Inr (Some xs), tr') \<Rightarrow> (Inr xs, tr'))"

text \<open>\<open>const [count, ttl] = ...\<close>: a position past the end is \<open>undefined\<close>.\<close>

definition entry :: "jsnum list \<Rightarrow> nat \<Rightarrow> jsnum" where
  "entry xs i = (if i < length xs then xs ! i else Missing)"

definition enforceRateLimit ::
  "server \<Rightarrow> RateContext \<Rightarrow> event list \<Rightarrow> (error + rate) \<times> event list" where
  "enforceRateLimit env context tr =
     (case runUpstashPipeline env [INCR (key context), TTL (key context)] tr of
        (Inl e, tr1) \<Rightarrow> (Inl e, tr1)
      | (Inr replies, tr1) \<Rightarrow>
          (let count = entry replies 0; ttl = entry replies 1 in
           if \<not> isFinite count then (Inl InvalidCounter, tr1)
           else
             (let ttlSeconds0 =
                    (if isFinite ttl \<and> js_ge ttl 0 then the_int ttl else ttlSeconds context);
                  expiry =
                    (if count = Finite 1 \<or> js_less ttl 0
                     then (case runUpstash env (EXPIRE (key context) (ttlSeconds context)) tr1 of
                             (Inl e, tr2) \<Rightarrow> (Inl e, tr2)
                           | (Inr _, tr2) \<Rightarrow> (Inr (ttlSeconds context), tr2))
                     else (Inr ttlSeconds0, tr1))
              in (case expiry of
                    (Inl e, tr2) \<Rightarrow> (Inl e, tr2)
                  | (Inr ttlSeconds1, tr2) \<Rightarrow>
                      (Inr \<lparr> allowed = the_int count \<le> limit context,
                             remainingMinutes = max 0 (ceil_div ttlSeconds1 60) \<rparr>, tr2)))))"

subsection \<open>The handler\<close>

text \<open>
  Lines 176 to 178: the identifier of a new session cookie, \<open>crypto.randomUUID()\<close> or
  the fallback built from the clock and a random number.
\<close>

definition new_cookie_id :: "server \<Rightarrow> error + jsstring" where
  "new_cookie_id env =
     (case randomUUID env of
        Some r \<Rightarrow> r
      | None \<Rightarrow> Inr (decimal (date_now env) @ ascii ''-'' @ random16 env))"

text \<open>
  Lines 171 to 184: \<open>cookieDeviceId\<close> and \<open>setCookieHeader\<close>, from the value of the
  request's ideaspark_id cookie.
\<close>

definition session_cookie ::
  "server \<Rightarrow> jsstring option \<Rightarrow> jsstring option \<times> jsstring option" where
  "session_cookie env existing =
     (if \<not> truthy existing
      then (case new_cookie_id env of
              Inr uuid \<Rightarrow> (Some uuid, Some (createCookie uuid))
            | Inl e \<Rightarrow> (existing, None))
      else (existing, None))"

text \<open>Lines 187 to 208: the rate context of the request.\<close>

definition rate_context :: "request \<Rightarrow> jsvalue \<Rightarrow> jsstring option \<Rightarrow> error + RateContext" where
  "rate_context req deviceId cookieDeviceId =
     (let normalizedCombinedId = normalizeDeviceId deviceId in
      if truthy normalizedCombinedId
      then Inr \<lparr> key = COMBINED_KEY_PREFIX @ the normalizedCombinedId,
                 limit = COMBINED_LIMIT, ttlSeconds = HOUR_SECONDS \<rparr>
      else if truthy cookieDeviceId
      then Inr \<lparr> key = COOKIE_KEY_PREFIX @ the cookieDeviceId,
                 limit = COOKIE_LIMIT, ttlSeconds = HOUR_SECONDS \<rparr>
      else (case getClientIp req of
              Inl e \<Rightarrow> Inl e
            | Inr ip \<Rightarrow> Inr \<lparr> key = IP_KEY_PREFIX @ ip,
                              limit = IP_LIMIT, ttlSeconds = HOUR_SECONDS \<rparr>))"

text \<open>
  The classifier: what the handler computes before it calls the limiter, the rate
  context (or what building it threw) and the pending Set-Cookie header.
\<close>

definition classify :: "server \<Rightarrow> request \<Rightarrow> (error + RateContext) \<times> jsstring option" where
  "classify env req =
     (let deviceId = pickFirst (nullish (body_deviceId req) (query_deviceId req));
          cookies = parseCookies req;
          (cookieDeviceId, setCookieHeader) = session_cookie env (cookies COOKIE_NAME)
      in (rate_context req deviceId cookieDeviceId, setCookieHeader))"

datatype json = Idea jsstring | ErrorMessage jsstring | RateLimited int

record response =
  status :: nat
  body :: "json option"
  set_cookie :: "jsstring option"

definition internal_error :: "response \<Rightarrow> response" where
  "internal_error res =
     res\<lparr> status := 500, body := Some (ErrorMessage (ascii ''Internal Server Error.'')) \<rparr>"

text \<open>Lines 226 to 250: the call of the protected resource and the answer built from it.\<close>

definition generate :: "server \<Rightarrow> response \<Rightarrow> event list \<Rightarrow> response \<times> event list" where
  "generate env res tr =
     (case gemini env of
        GeminiRejects \<Rightarrow> (internal_error res, tr @ [Gemini])
      | GeminiText text \<Rightarrow>
          (let idea = map_option trim text in
           if truthy idea
           then (res\<lparr> status := 200, body := Some (Idea (the idea)) \<rparr>, tr @ [Gemini])
           else (res\<lparr> status := 500,
                      body := Some (ErrorMessage (ascii ''Failed to extract idea.'')) \<rparr>,
                 tr @ [Gemini])))"

text \<open>
  The handler returns the response it wrote and the external calls it made. The
  response starts with status 200, no body and no Set-Cookie header.
\<close>

definition handler :: "server \<Rightarrow> request \<Rightarrow> response \<times> event list" where
  "handler env req =
     (let res = \<lparr> status = 200, body = None, set_cookie = None \<rparr>;
          (context, setCookieHeader) = classify env req
      in (case context of
            Inl e \<Rightarrow> (internal_error res, [])
          | Inr context \<Rightarrow>
              (let res1 = (if truthy setCookieHeader
                           then res\<lparr> set_cookie := setCookieHeader \<rparr> else res)
               in (case enforceRateLimit env context [] of
                     (Inl e, tr) \<Rightarrow> (internal_error res1, tr)
                   | (Inr rate, tr) \<Rightarrow>
                       (if \<not> allowed rate
                        then (res1\<lparr> status := 429,
                                    body := Some (RateLimited (remainingMinutes rate)) \<rparr>, tr)
                        else generate env res1 tr)))))"

section \<open>The device identity resolver (src/deviceId.ts)\<close>

definition STORAGE_KEY :: jsstring where
  "STORAGE_KEY = ascii ''ideaspark_device_id''"

definition isValidUuid :: "jsstring \<Rightarrow> bool" where
  "isValidUuid v \<longleftrightarrow>
     Option.bind (Option.bind (Option.bind (Option.bind (Option.bind (Option.bind
       (Option.bind (Option.bind (hex_run 8 v) dash) (hex_run 4)) dash) (hex_run 4)) dash)
       (hex_run 4)) dash) (hex_run 12) = Some []"

text \<open>
  Local storage: its items, and whether \<open>getItem\<close> and \<open>setItem\<close> throw (storage that
  is blocked or full).
\<close>

record storage =
  items :: "jsstring \<rightharpoonup> jsstring"
  getItem_throws :: bool
  setItem_throws :: bool

text \<open>What \<open>FingerprintJS.load()\<close> resolves to: an agent whose \<open>get()\<close> rejects or
  resolves to a result with its \<open>visitorId\<close>.\<close>

datatype agent = Agent "error + jsstring"

text \<open>
  The browser: \<open>has_window\<close> says that \<open>window\<close> is defined, \<open>localStorage\<close> is
  \<open>window.localStorage\<close> (\<open>None\<close> when falsy), \<open>random36\<close> is
  \<open>Math.random().toString(36).slice(2, 10)\<close>, \<open>fingerprintjs_load\<close> is the outcome of
  \<open>FingerprintJS.load()\<close>, and \<open>subtle_digest\<close> is \<open>None\<close> when \<open>crypto\<close> or
  \<open>crypto.subtle\<close> is missing and otherwise gives, for an input string, the outcome
  of \<open>crypto.subtle.digest('SHA-256', new TextEncoder().encode(input))\<close>: a rejection
  or the bytes of the digest.
\<close>

record browser = runtime +
  has_window :: bool
  localStorage :: "storage option"
  random36 :: jsstring
  fingerprintjs_load :: "error + agent"
  subtle_digest :: "(jsstring \<Rightarrow> error + 8 word list) option"

text \<open>Lines 16 to 18: a fresh identifier.\<close>

definition fresh_device_id :: "browser \<Rightarrow> error + jsstring" where
  "fresh_device_id b =
     (case randomUUID b of
        Some r \<Rightarrow> r
      | None \<Rightarrow> Inr (ascii ''device-'' @ decimal (date_now b) @ ascii ''-'' @ random36 b))"

text \<open>\<open>getDeviceId\<close> returns the identifier and the browser with its storage as written.\<close>

definition getDeviceId :: "browser \<Rightarrow> jsstring \<times> browser" where
  "getDeviceId b =
     (if \<not> has_window b \<or> localStorage b = None then ([], b)
      else
        (let storage = the (localStorage b) in
         if getItem_throws storage then ([], b)
         else
           (let existing = items storage STORAGE_KEY in
            if truthy existing \<and> isValidUuid (the existing) then (the existing, b)
            else (case fresh_device_id b of
                    Inl e \<Rightarrow> ([], b)
                  | Inr fresh \<Rightarrow>
                      (if setItem_throws storage then ([], b)
                       else (fresh,
                             b\<lparr> localStorage :=
                                  Some (storage\<lparr> items := (items storage)(STORAGE_KEY \<mapsto> fresh) \<rparr>) \<rparr>))))))"

text \<open>
  Lines 28 to 44: the memoised fingerprint, \<open>None\<close> for \<open>null\<close>. Both handlers of the
  chain turn a failure into the empty string.
\<close>

definition fingerprintPromise :: "browser \<Rightarrow> (error + jsstring) option" where
  "fingerprintPromise b =
     (if has_window b
      then Some (case fingerprintjs_load b of
                   Inl e \<Rightarrow> Inr []
                 | Inr (Agent got) \<Rightarrow>
                     (case got of
                        Inl e \<Rightarrow> Inr []
                      | Inr visitorId \<Rightarrow> Inr (if visitorId \<noteq> [] then visitorId else [])))
      else None)"

text \<open>\<open>n.toString(16)\<close> for a natural number, and \<open>s.padStart(n, c)\<close>.\<close>

definition hex_digit :: "nat \<Rightarrow> code_unit" where
  "hex_digit d = (if d < 10 then 48 + d else 87 + d)"

fun toString16 :: "nat \<Rightarrow> jsstring" where
  "toString16 n =
     (if n < 16 then [hex_digit n] else toString16 (n div 16) @ [hex_digit (n mod 16)])"

declare toString16.simps [simp del]

definition padStart :: "nat \<Rightarrow> code_unit \<Rightarrow> jsstring \<Rightarrow> jsstring" where
  "padStart n c s = replicate (n - length s) c @ s"

definition sha256 :: "browser \<Rightarrow> jsstring \<Rightarrow> error + jsstring" where
  "sha256 b input =
     (case subtle_digest b of
        None \<Rightarrow> Inr []
      | Some digest \<Rightarrow>
          (case digest input of
             Inl e \<Rightarrow> Inl e
           | Inr bytes \<Rightarrow> Inr (concat (map (\<lambda>x. padStart 2 48 (toString16 (unat x))) bytes))))"

text \<open>
  \<open>getUniqueDeviceId\<close>: \<open>Inl\<close> would be a rejected promise. The inner \<open>case\<close> is the
  body of the \<open>try\<close>, the outer one its \<open>catch\<close>.
\<close>

definition getUniqueDeviceId :: "browser \<Rightarrow> (error + jsstring) \<times> browser" where
  "getUniqueDeviceId b =
     (let (baseId, b') = getDeviceId b in
      if baseId = [] then (Inr [], b')
      else
        (case (case (case fingerprintPromise b' of Some p \<Rightarrow> p | None \<Rightarrow> Inr []) of
                 Inl e \<Rightarrow> Inl e
               | Inr fingerprintId \<Rightarrow>
                   (let combined = baseId @ ascii ''|'' @ fingerprintId in
                    case sha256 b' combined of
                      Inl e \<Rightarrow> Inl e
                    | Inr hash \<Rightarrow> Inr (if hash \<noteq> [] then hash else baseId)))
         of
           Inl e \<Rightarrow> (Inr baseId, b')
         | Inr v \<Rightarrow> (Inr v, b')))"

section \<open>The local usage guard (rateLimit)\<close>

definition LIMIT :: nat where "LIMIT = 20"
definition WINDOW_MS :: int where "WINDOW_MS = 60 * 60 * 1000"

text \<open>
  What reading the guard's item gives: \<open>getItem\<close> throws, there is no item (\<open>null\<close> or
  the empty string), \<open>JSON.parse\<close> throws, the parsed value is not an array, or it is
  an array, given by the numbers \<open>Number(value)\<close> of its elements. Timestamps are
  integers (milliseconds), so a finite number is an integer.
\<close>

datatype rate_item = GetItemThrows | NoItem | ParseThrows | NotArray | ParsedArray "jsnum list"

text \<open>
  The window the guard runs in: \<open>window\<close> is undefined, reading \<open>window.localStorage\<close>
  throws (a browser that blocks storage raises a SecurityError), \<open>window.localStorage\<close>
  is falsy, or it is a storage with the guard's item.
\<close>

datatype window_storage = WindowUndefined | StorageThrows | StorageMissing | Storage rate_item

text \<open>\<open>getStorage\<close>: \<open>None\<close> is \<open>null\<close>.\<close>

definition getStorage :: "window_storage \<Rightarrow> error + rate_item option" where
  "getStorage w =
     (case w of
        WindowUndefined \<Rightarrow> Inr None
      | StorageThrows \<Rightarrow> Inl SecurityError
      | StorageMissing \<Rightarrow> Inr None
      | Storage item \<Rightarrow> Inr (Some item))"

text \<open>
  \<open>loadTimestamps\<close> calls \<open>getStorage\<close> before its \<open>try\<close>: what \<open>getStorage\<close> throws,
  it throws; what is thrown inside the \<open>try\<close> gives the empty list.
\<close>

definition loadTimestamps :: "window_storage \<Rightarrow> int \<Rightarrow> error + int list" where
  "loadTimestamps w now =
     (case getStorage w of
        Inl e \<Rightarrow> Inl e
      | Inr storage \<Rightarrow>
          Inr (case storage of
                 None \<Rightarrow> []
               | Some GetItemThrows \<Rightarrow> []
               | Some NoItem \<Rightarrow> []
               | Some ParseThrows \<Rightarrow> []
               | Some NotArray \<Rightarrow> []
               | Some (ParsedArray parsed) \<Rightarrow>
                   (let cutoff = now - WINDOW_MS in
                    sort (map the_int
                            (filter (\<lambda>timestamp. isFinite timestamp \<and> js_ge timestamp cutoff)
                               parsed)))))"

definition minutesUntilReset :: "int list \<Rightarrow> int \<Rightarrow> int" where
  "minutesUntilReset timestamps now =
     (if length timestamps < LIMIT then 0
      else
        (let oldest = timestamps ! 0;
             remainingMs = WINDOW_MS - (now - oldest)
         in if remainingMs \<le> 0 then 0 else ceil_div remainingMs (60 * 1000)))"

text \<open>The result of \<open>canGenerateIdea\<close>; its \<open>allowed\<close> field is \<open>allowed_locally\<close> here.\<close>

record verdict =
  allowed_locally :: bool
  remaining :: int

text \<open>\<open>canGenerateIdea\<close>, for the storage of the window and the value of \<open>Date.now()\<close>.\<close>

definition canGenerateIdea :: "window_storage \<Rightarrow> int \<Rightarrow> error + verdict" where
  "canGenerateIdea w now =
     (case loadTimestamps w now of
        Inl e \<Rightarrow> Inl e
      | Inr timestamps \<Rightarrow>
          (let allowed = length timestamps < LIMIT;
               remaining = (if allowed then 0 else minutesUntilReset timestamps now)
           in Inr \<lparr> allowed_locally = allowed, remaining = remaining \<rparr>))"

section \<open>Notions used to state the properties\<close>

text \<open>
  \<open>Math.ceil(v / d)\<close> for any number \<open>v\<close> of the program and a positive integer \<open>d\<close>:
  \<open>NaN\<close> for \<open>NaN\<close> and for \<open>undefined\<close>, the infinities unchanged.
\<close>

definition Math_ceil_div :: "jsnum \<Rightarrow> int \<Rightarrow> jsnum" where
  "Math_ceil_div v d =
     (case v of
        Finite x \<Rightarrow> Finite (ceil_div x d)
      | PosInfinity \<Rightarrow> PosInfinity
      | NegInfinity \<Rightarrow> NegInfinity
      | _ \<Rightarrow> NaN)"

text \<open>
  A reply of the store that the limiter cannot use: the call is rejected (the store
  cannot be reached), the status is not OK, or the body cannot be read as JSON or is
  not an array. For the single EXPIRE an empty array is of no use either.
\<close>

definition bad_reply :: "fetch_result \<Rightarrow> bool" where
  "bad_reply r \<longleftrightarrow>
     (case r of
        FetchRejects \<Rightarrow> True
      | Response ok st reply \<Rightarrow>
          \<not> ok \<or> (case reply of JsonRejects \<Rightarrow> True | NotAnArray \<Rightarrow> True | Entries xs \<Rightarrow> False))"

definition empty_reply :: "fetch_result \<Rightarrow> bool" where
  "empty_reply r \<longleftrightarrow> (case r of Response ok st (Entries []) \<Rightarrow> True | _ \<Rightarrow> False)"

text \<open>
  The store fails the limiter for a context: it is not configured; or its reply to
  the pipeline of INCR and TTL is bad, or carries a counter that is not a finite
  number; or the limiter has to send the EXPIRE (the counter is 1 or the time-to-live
  negative) and the reply to that request is bad or empty.
\<close>

definition store_fails :: "server \<Rightarrow> RateContext \<Rightarrow> bool" where
  "store_fails env context \<longleftrightarrow>
     \<not> redis_configured env \<or>
     bad_reply (upstash env [INCR (key context), TTL (key context)]) \<or>
     (case upstash env [INCR (key context), TTL (key context)] of
        Response ok st (Entries xs) \<Rightarrow>
          \<not> isFinite (entry xs 0) \<or>
          ((entry xs 0 = Finite 1 \<or> js_less (entry xs 1) 0) \<and>
           (bad_reply (upstash env [EXPIRE (key context) (ttlSeconds context)]) \<or>
            empty_reply (upstash env [EXPIRE (key context) (ttlSeconds context)])))
      | _ \<Rightarrow> False)"

text \<open>
  The timestamps the local guard has stored: the finite numbers of the stored array,
  in its order, and none when there is no storage or no readable array. A timestamp
  is within the trailing window of 3 600 000 ms before \<open>now\<close> when it lies between
  \<open>now - 3600000\<close> and \<open>now\<close>; it is recent when it is not older than the window,
  which is all the guard asks of it.
\<close>

definition stored_timestamps :: "window_storage \<Rightarrow> int list" where
  "stored_timestamps w =
     (case w of
        Storage (ParsedArray parsed) \<Rightarrow> map the_int (filter isFinite parsed)
      | _ \<Rightarrow> [])"

definition within_window :: "int \<Rightarrow> int \<Rightarrow> bool" where
  "within_window now t \<longleftrightarrow> now - 3600000 \<le> t \<and> t \<le> now"

definition recent :: "int \<Rightarrow> int \<Rightarrow> bool" where
  "recent now t \<longleftrightarrow> now - 3600000 \<le> t"

section \<open>Example inputs\<close>

text \<open>
  Concrete servers, requests and browsers on which the theorems below are run: a
  server is given by what the store answers and by the outcome of the generation
  call, a request by its device identifier and its Cookie header.
\<close>

definition example_uuid :: jsstring where
  "example_uuid = ascii ''123e4567-e89b-12d3-a456-426614174000''"

definition example_server :: "(command list \<Rightarrow> fetch_result) \<Rightarrow> gemini_outcome \<Rightarrow> server" where
  "example_server store answer =
     \<lparr> randomUUID = Some (Inr example_uuid), date_now = 1700000000000,
       random16 = ascii ''8c3f9a'', redis_configured = True, upstash = store,
       gemini = answer \<rparr>"

definition example_request :: "jsvalue \<Rightarrow> jsstring option \<Rightarrow> request" where
  "example_request deviceId cookieHeader =
     \<lparr> body_deviceId = deviceId, query_deviceId = JUndefined, cookie = cookieHeader,
       x_forwarded_for = Single (ascii ''203.0.113.7, 10.0.0.1''), x_real_ip = Absent,
       remoteAddress = None \<rparr>"

text \<open>
  Two stores: one that cannot be reached, and one that answers the pipeline of INCR
  and TTL with the given numbers and a single EXPIRE with 1.
\<close>

definition unreachable_store :: "command list \<Rightarrow> fetch_result" where
  "unreachable_store commands = FetchRejects"

definition answering :: "jsnum list \<Rightarrow> command list \<Rightarrow> fetch_result" where
  "answering replies commands =
     (case commands of
        [EXPIRE k t] \<Rightarrow> Response True 200 (Entries [Finite 1])
      | _ \<Rightarrow> Response True 200 (Entries replies))"

text \<open>
  A store that answers the pipeline with the given numbers and a single EXPIRE with
  the given failure.
\<close>

definition failing_expire :: "fetch_result \<Rightarrow> jsnum list \<Rightarrow> command list \<Rightarrow> fetch_result" where
  "failing_expire failure replies commands =
     (case commands of
        [EXPIRE k t] \<Rightarrow> failure
      | _ \<Rightarrow> Response True 200 (Entries replies))"

definition example_context :: RateContext where
  "example_context =
     \<lparr> key = ascii ''rl:combined:'' @ example_uuid, limit = 50, ttlSeconds = 3600 \<rparr>"

text \<open>
  A stored log of the local guard: an entry that is not a number, one from long ago,
  and twenty timestamps of the last hour before 1 700 003 600 000.
\<close>

definition example_log :: "jsnum list" where
  "example_log =
     NaN # Finite 1600000000000 # Finite 1700000600001 # replicate 19 (Finite 1700003000000)"

text \<open>
  A log written while the clock was a day ahead: twenty timestamps one day after
  1 700 003 600 000.
\<close>

definition future_log :: "jsnum list" where
  "future_log = replicate 20 (Finite 1700090000000)"

text \<open>
  A browser, given by the items of its local storage, by \<open>crypto.randomUUID\<close> and by
  the digest of \<open>crypto.subtle\<close>; a digest that answers every input with the same 32
  bytes, and one that rejects.
\<close>

definition example_browser ::
  "(jsstring \<rightharpoonup> jsstring) \<Rightarrow> (error + jsstring) option \<Rightarrow>
   (jsstring \<Rightarrow> error + 8 word list) option \<Rightarrow> browser" where
  "example_browser stored uuid digest =
     \<lparr> randomUUID = uuid, date_now = 1700000000000, has_window = True,
       localStorage = Some \<lparr> items = stored, getItem_throws = False, setItem_throws = False \<rparr>,
       random36 = ascii ''k3j9x2ab'', fingerprintjs_load = Inr (Agent (Inr (ascii ''f1e2d3''))),
       subtle_digest = digest \<rparr>"

definition constant_digest :: "jsstring \<Rightarrow> error + 8 word list" where
  "constant_digest input = Inr (replicate 32 90)"

definition rejecting_digest :: "jsstring \<Rightarrow> error + 8 word list" where
  "rejecting_digest input = Inl RuntimeError"

definition returning_storage :: "jsstring \<rightharpoonup> jsstring" where
  "returning_storage = [STORAGE_KEY \<mapsto> example_uuid]"

section \<open>Proofs\<close>

subsection \<open>Patterns and trimming\<close>


lemma hex_run_split:
  "hex_run n s = Some r \<longleftrightarrow> (\<exists>h. s = h @ r \<and> length h = n \<and> list_all is_hex h)"
proof (induction n s rule: hex_run.induct)
  case (1 s)
  then show ?case by simp
next
  case (2 n)
  then show ?case by simp
next
  case (3 n c cs)
  show ?case
  proof (cases "is_hex c")
    case True
    with 3 show ?thesis
      by (auto simp: length_Suc_conv Cons_eq_append_conv)
  next
    case False
    then show ?thesis
      by (auto simp: length_Suc_conv Cons_eq_append_conv)
  qed
qed

lemma dash_split: "dash s = Some r \<longleftrightarrow> s = 45 # r"
  by (cases s) auto

lemma is_hex_not_space: "is_hex c \<Longrightarrow> \<not> isWhiteSpace c"
  by (auto simp: is_hex_def isWhiteSpace_def)

lemma uuid_shape:
  "UUID_REGEX_test s \<longleftrightarrow>
     (\<exists>a b c d e. s = a @ 45 # b @ 45 # c @ 45 # d @ 45 # e \<and>
        length a = 8 \<and> length b = 4 \<and> length c = 4 \<and> length d = 4 \<and> length e = 12 \<and>
        list_all is_hex a \<and> list_all is_hex b \<and> list_all is_hex c \<and> list_all is_hex d \<and>
        list_all is_hex e)"
  unfolding UUID_REGEX_test_def bind_eq_Some_conv hex_run_split dash_split
  by (auto; blast)

lemma hex64_shape: "HEX_64_REGEX_test s \<longleftrightarrow> length s = 64 \<and> list_all is_hex s"
  unfolding HEX_64_REGEX_test_def hex_run_split by auto

lemma hex64_ends: "HEX_64_REGEX_test s \<Longrightarrow> s \<noteq> [] \<and> is_hex (hd s) \<and> is_hex (last s)"
proof -
  assume "HEX_64_REGEX_test s"
  then have n: "s \<noteq> []" and h: "\<forall>x\<in>set s. is_hex x"
    unfolding hex64_shape by (auto simp: list_all_iff)
  from n have "hd s \<in> set s" "last s \<in> set s" by simp_all
  with n h show ?thesis by blast
qed

lemma uuid_ends: "UUID_REGEX_test s \<Longrightarrow> s \<noteq> [] \<and> is_hex (hd s) \<and> is_hex (last s)"
proof -
  assume "UUID_REGEX_test s"
  then obtain a b c d e where s: "s = a @ 45 # b @ 45 # c @ 45 # d @ 45 # e"
    and a: "length a = 8" "list_all is_hex a" and e: "length e = 12" "list_all is_hex e"
    unfolding uuid_shape by blast
  from a have "a \<noteq> []" "is_hex (hd a)" by (cases a; auto)+
  moreover from e have "e \<noteq> []" "is_hex (last e)" by (cases e rule: rev_cases; auto)+
  ultimately show ?thesis using s by (auto simp: hd_append)
qed

lemma dropWhile_pad:
  "list_all P l \<Longrightarrow> s \<noteq> [] \<Longrightarrow> \<not> P (hd s) \<Longrightarrow> dropWhile P (l @ s) = s"
  by (induction l) (auto simp: neq_Nil_conv)

lemma trim_pad:
  assumes "list_all isWhiteSpace l" "list_all isWhiteSpace r" "s \<noteq> []"
    "\<not> isWhiteSpace (hd s)" "\<not> isWhiteSpace (last s)"
  shows "trim (l @ s @ r) = s"
proof -
  have "dropWhile isWhiteSpace (l @ s @ r) = s @ r"
    using assms by (intro dropWhile_pad) (auto simp: hd_append)
  moreover have "dropWhile isWhiteSpace (rev r @ rev s) = rev s"
    using assms by (intro dropWhile_pad) (auto simp: hd_rev list_all_iff)
  ultimately show ?thesis by (simp add: trim_def)
qed


lemma normalize_padded:
  assumes "list_all isWhiteSpace l" "list_all isWhiteSpace r"
    and "HEX_64_REGEX_test s \<or> UUID_REGEX_test s"
  shows "normalizeDeviceId (JString (l @ s @ r)) = Some (toLowerCase s)"
proof -
  from assms(3) have "s \<noteq> [] \<and> is_hex (hd s) \<and> is_hex (last s)"
    using hex64_ends uuid_ends by blast
  then have "trim (l @ s @ r) = s"
    using assms(1,2) by (intro trim_pad) (auto dest: is_hex_not_space)
  with assms(3) show ?thesis
    by (auto simp: normalizeDeviceId_def)
qed

lemma valid_not_empty:
  "HEX_64_REGEX_test s \<or> UUID_REGEX_test s \<Longrightarrow> toLowerCase s \<noteq> []"
  using hex64_ends uuid_ends by (auto simp: toLowerCase_def)

lemma rate_context_combined:
  "normalizeDeviceId v = Some i \<Longrightarrow> i \<noteq> [] \<Longrightarrow>
   rate_context req v c =
     Inr \<lparr> key = COMBINED_KEY_PREFIX @ i, limit = COMBINED_LIMIT, ttlSeconds = HOUR_SECONDS \<rparr>"
  by (simp add: rate_context_def truthy_def)

lemma fst_classify:
  "fst (classify env req) =
     rate_context req (pickFirst (nullish (body_deviceId req) (query_deviceId req)))
       (fst (session_cookie env (parseCookies req COOKIE_NAME)))"
  by (simp add: classify_def Let_def split: prod.splits)

lemma snd_classify:
  "snd (classify env req) = snd (session_cookie env (parseCookies req COOKIE_NAME))"
  by (simp add: classify_def Let_def split: prod.splits)

lemma toLowerCase_lower: "list_all (\<lambda>c. \<not> (65 \<le> c \<and> c \<le> 90)) (toLowerCase s)"
  by (auto simp: toLowerCase_def list_all_iff)

lemma example_uuid_upper: "UUID_REGEX_test (ascii ''123E4567-E89B-12D3-A456-426614174000'')"
  by code_simp

lemma example_hex64:
  "HEX_64_REGEX_test (ascii ''9F86D081884C7D659A2FEAA0C55AD015A3BF4F1B2B0B822CD15D6C15B0F00A08'')"
  by code_simp

subsection \<open>The identity classifier\<close>

text \<open>
  Claim C2. A request whose device identifier (\<open>pickFirst(body.deviceId ?? req.query.deviceId)\<close>)
  is a string matching the 64-hex pattern or the UUID pattern, in either case of the
  letters, is classified into the combined tier: the rate context has the key
  \<open>rl:combined:\<close> followed by the identifier in lower case, the limit 50 and the
  time-to-live 3600, whatever the Cookie header \<open>c\<close> of the request and whatever the
  server. The lowered identifier holds no upper-case letter.
\<close>

theorem valid_device_id_selects_combined:
  assumes "pickFirst (nullish (body_deviceId req) (query_deviceId req)) = JString s"
    and "HEX_64_REGEX_test s \<or> UUID_REGEX_test s"
  shows "fst (classify env (req\<lparr> cookie := c \<rparr>)) =
           Inr \<lparr> key = ascii ''rl:combined:'' @ toLowerCase s, limit = 50, ttlSeconds = 3600 \<rparr>
         \<and> list_all (\<lambda>u. \<not> (65 \<le> u \<and> u \<le> 90)) (toLowerCase s)"
proof -
  have "normalizeDeviceId (JString ([] @ s @ [])) = Some (toLowerCase s)"
    using assms(2) by (intro normalize_padded) simp_all
  then have "normalizeDeviceId (JString s) = Some (toLowerCase s)" by simp
  moreover have "toLowerCase s \<noteq> []" using assms(2) by (rule valid_not_empty)
  ultimately have "rate_context (req\<lparr> cookie := c \<rparr>) (JString s)
      (fst (session_cookie env (parseCookies (req\<lparr> cookie := c \<rparr>) COOKIE_NAME))) =
    Inr \<lparr> key = COMBINED_KEY_PREFIX @ toLowerCase s, limit = COMBINED_LIMIT,
          ttlSeconds = HOUR_SECONDS \<rparr>"
    by (rule rate_context_combined)
  then have "fst (classify env (req\<lparr> cookie := c \<rparr>)) =
      Inr \<lparr> key = ascii ''rl:combined:'' @ toLowerCase s, limit = 50, ttlSeconds = 3600 \<rparr>"
    using assms(1)
    by (simp add: fst_classify COMBINED_KEY_PREFIX_def COMBINED_LIMIT_def HOUR_SECONDS_def)
  then show ?thesis
    using toLowerCase_lower [of s] by (rule conjI)
qed

theorem valid_device_id_selects_combined_witness:
  "fst (classify (example_server unreachable_store GeminiRejects)
         ((example_request (JString (ascii ''123E4567-E89B-12D3-A456-426614174000'')) None)
            \<lparr> cookie := Some (ascii ''theme=dark; ideaspark_id=abc'') \<rparr>)) =
     Inr \<lparr> key = ascii ''rl:combined:123e4567-e89b-12d3-a456-426614174000'',
           limit = 50, ttlSeconds = 3600 \<rparr>
   \<and> fst (classify (example_server unreachable_store GeminiRejects)
         ((example_request
            (JString (ascii ''9F86D081884C7D659A2FEAA0C55AD015A3BF4F1B2B0B822CD15D6C15B0F00A08'')) None)
            \<lparr> cookie := None \<rparr>)) =
     Inr \<lparr> key = ascii ''rl:combined:9f86d081884c7d659a2feaa0c55ad015a3bf4f1b2b0b822cd15d6c15b0f00a08'',
           limit = 50, ttlSeconds = 3600 \<rparr>"
  using
    valid_device_id_selects_combined [of
      "example_request (JString (ascii ''123E4567-E89B-12D3-A456-426614174000'')) None"
      "ascii ''123E4567-E89B-12D3-A456-426614174000''"
      "example_server unreachable_store GeminiRejects"
      "Some (ascii ''theme=dark; ideaspark_id=abc'')"]
    valid_device_id_selects_combined [of
      "example_request
         (JString (ascii ''9F86D081884C7D659A2FEAA0C55AD015A3BF4F1B2B0B822CD15D6C15B0F00A08'')) None"
      "ascii ''9F86D081884C7D659A2FEAA0C55AD015A3BF4F1B2B0B822CD15D6C15B0F00A08''"
      "example_server unreachable_store GeminiRejects"
      None]
    example_uuid_upper example_hex64
  by (simp add: example_request_def pickFirst_def nullish_def toLowerCase_def ascii_def)
lemma uuid_length: "UUID_REGEX_test s \<Longrightarrow> length s = 36"
  unfolding uuid_shape by auto

lemma split_not_Nil: "split sep s \<noteq> []"
  by (induction s) (auto split: list.splits)

lemma getClientIp_total: "\<exists>ip. getClientIp req = Inr ip"
  using split_not_Nil
  by (auto simp: getClientIp_def split: header_value.splits list.splits)

text \<open>
  Claim C10. \<open>normalizeDeviceId\<close> trims before it validates: a device identifier made of
  a valid UUID or 64-hex digest \<open>s\<close> with white space \<open>l\<close> before it and white space
  \<open>r\<close> after it is accepted and normalised to \<open>s\<close> in lower case, and a request that
  supplies it is classified into the combined tier under the key \<open>rl:combined:\<close>
  followed by the trimmed identifier in lower case.
\<close>

theorem padded_device_id_is_trimmed:
  assumes "list_all isWhiteSpace l" and "list_all isWhiteSpace r"
    and "HEX_64_REGEX_test s \<or> UUID_REGEX_test s"
    and "pickFirst (nullish (body_deviceId req) (query_deviceId req)) = JString (l @ s @ r)"
  shows "normalizeDeviceId (JString (l @ s @ r)) = Some (toLowerCase s) \<and>
         fst (classify env req) =
           Inr \<lparr> key = ascii ''rl:combined:'' @ toLowerCase s, limit = 50, ttlSeconds = 3600 \<rparr>"
proof -
  have n: "normalizeDeviceId (JString (l @ s @ r)) = Some (toLowerCase s)"
    using assms(1-3) by (rule normalize_padded)
  have "toLowerCase s \<noteq> []"
    using assms(3) by (rule valid_not_empty)
  with n have "rate_context req (JString (l @ s @ r))
      (fst (session_cookie env (parseCookies req COOKIE_NAME))) =
    Inr \<lparr> key = COMBINED_KEY_PREFIX @ toLowerCase s, limit = COMBINED_LIMIT,
          ttlSeconds = HOUR_SECONDS \<rparr>"
    by (rule rate_context_combined)
  with n show ?thesis
    using assms(4)
    by (simp add: fst_classify COMBINED_KEY_PREFIX_def COMBINED_LIMIT_def HOUR_SECONDS_def)
qed

theorem padded_device_id_is_trimmed_witness:
  "normalizeDeviceId
     (JString ([32, 9] @ ascii ''123E4567-E89B-12D3-A456-426614174000'' @ [13, 10, 160])) =
     Some (ascii ''123e4567-e89b-12d3-a456-426614174000'') \<and>
   fst (classify (example_server unreachable_store GeminiRejects)
         (example_request
            (JString ([32, 9] @ ascii ''123E4567-E89B-12D3-A456-426614174000'' @ [13, 10, 160]))
            None)) =
     Inr \<lparr> key = ascii ''rl:combined:123e4567-e89b-12d3-a456-426614174000'',
           limit = 50, ttlSeconds = 3600 \<rparr>"
  using
    padded_device_id_is_trimmed [of "[32, 9]" "[13, 10, 160]"
      "ascii ''123E4567-E89B-12D3-A456-426614174000''"
      "example_request
         (JString ([32, 9] @ ascii ''123E4567-E89B-12D3-A456-426614174000'' @ [13, 10, 160]))
         None"
      "example_server unreachable_store GeminiRejects"]
    example_uuid_upper
  by (simp add: example_request_def pickFirst_def nullish_def toLowerCase_def ascii_def
      isWhiteSpace_def)
lemma session_cookie_fst:
  "fst (session_cookie env existing) =
     (if truthy existing then existing
      else (case new_cookie_id env of Inr uuid \<Rightarrow> Some uuid | Inl e \<Rightarrow> existing))"
  by (simp add: session_cookie_def split: sum.splits)

lemma session_cookie_snd:
  "snd (session_cookie env existing) =
     (if truthy existing then None
      else (case new_cookie_id env of Inr uuid \<Rightarrow> Some (createCookie uuid) | Inl e \<Rightarrow> None))"
  by (simp add: session_cookie_def split: sum.splits)

lemma rate_context_no_device:
  "normalizeDeviceId v = None \<Longrightarrow>
   rate_context req v c =
     (if truthy c
      then Inr \<lparr> key = ascii ''rl:cookie:'' @ the c, limit = 30, ttlSeconds = 3600 \<rparr>
      else (case getClientIp req of
              Inl e \<Rightarrow> Inl e
            | Inr ip \<Rightarrow> Inr \<lparr> key = ascii ''rl:ip:'' @ ip, limit = 20, ttlSeconds = 3600 \<rparr>))"
  by (simp add: rate_context_def truthy_def COOKIE_KEY_PREFIX_def COOKIE_LIMIT_def
      IP_KEY_PREFIX_def IP_LIMIT_def HOUR_SECONDS_def split: sum.splits)

lemma not_a_uuid: "normalizeDeviceId (JString (ascii ''not-a-uuid'')) = None"
proof -
  have "trim (ascii ''not-a-uuid'') = ascii ''not-a-uuid''"
    by (simp add: trim_def ascii_def isWhiteSpace_def)
  moreover have "\<not> HEX_64_REGEX_test (ascii ''not-a-uuid'')"
    by (simp add: hex64_shape ascii_def)
  moreover have "\<not> UUID_REGEX_test (ascii ''not-a-uuid'')"
    using uuid_length [of "ascii ''not-a-uuid''"] by (auto simp: ascii_def)
  ultimately show ?thesis
    by (simp add: normalizeDeviceId_def)
qed

lemma example_request_ip:
  "getClientIp (example_request d c) = Inr (ascii ''203.0.113.7'')"
  by (simp add: getClientIp_def example_request_def ascii_def trim_def isWhiteSpace_def)

text \<open>
  Claim C1, as stated, fails: a first request that carries no ideaspark_id cookie and
  the device identifier \<open>not-a-uuid\<close> is not put into the ip tier. The handler assigns
  the identifier of the session cookie it has just generated to \<open>cookieDeviceId\<close>,
  so the rate context is that of the cookie tier, with limit 30.
\<close>

theorem first_contact_is_not_ip_tier:
  "normalizeDeviceId
     (pickFirst (nullish (body_deviceId (example_request (JString (ascii ''not-a-uuid'')) None))
                         (query_deviceId (example_request (JString (ascii ''not-a-uuid'')) None))))
     = None \<and>
   \<not> truthy (parseCookies (example_request (JString (ascii ''not-a-uuid'')) None) COOKIE_NAME) \<and>
   getClientIp (example_request (JString (ascii ''not-a-uuid'')) None) =
     Inr (ascii ''203.0.113.7'') \<and>
   fst (classify (example_server unreachable_store GeminiRejects)
         (example_request (JString (ascii ''not-a-uuid'')) None)) =
     Inr \<lparr> key = ascii ''rl:cookie:123e4567-e89b-12d3-a456-426614174000'',
           limit = 30, ttlSeconds = 3600 \<rparr> \<and>
   fst (classify (example_server unreachable_store GeminiRejects)
         (example_request (JString (ascii ''not-a-uuid'')) None)) \<noteq>
     Inr \<lparr> key = ascii ''rl:ip:203.0.113.7'', limit = 20, ttlSeconds = 3600 \<rparr>"
proof -
  let ?req = "example_request (JString (ascii ''not-a-uuid'')) None"
  let ?env = "example_server unreachable_store GeminiRejects"
  have d: "pickFirst (nullish (body_deviceId ?req) (query_deviceId ?req)) =
      JString (ascii ''not-a-uuid'')"
    by (simp add: example_request_def pickFirst_def nullish_def)
  have c: "parseCookies ?req COOKIE_NAME = None"
    by (simp add: parseCookies_def example_request_def truthy_def)
  have k: "fst (classify ?env ?req) =
      Inr \<lparr> key = ascii ''rl:cookie:123e4567-e89b-12d3-a456-426614174000'',
            limit = 30, ttlSeconds = 3600 \<rparr>"
    unfolding fst_classify d c rate_context_no_device [OF not_a_uuid]
    by (simp add: session_cookie_fst truthy_def new_cookie_id_def
        example_server_def example_uuid_def ascii_def)
  have "fst (classify ?env ?req) \<noteq>
      Inr \<lparr> key = ascii ''rl:ip:203.0.113.7'', limit = 20, ttlSeconds = 3600 \<rparr>"
    unfolding k by simp
  with d c k show ?thesis
    by (simp add: not_a_uuid truthy_def example_request_ip)
qed

text \<open>
  Claim C1, amended. For a request whose device identifier is not accepted by
  \<open>normalizeDeviceId\<close>: when the request carries a non-empty ideaspark_id cookie, the
  rate context is that of the cookie tier under the cookie's value; when it carries
  none, the context is that of the cookie tier under the identifier of the session
  cookie the handler has just generated (key \<open>rl:cookie:\<close> and the new identifier,
  limit 30), and the ip tier (key \<open>rl:ip:\<close> and the client address, limit 20) is
  selected only when no identifier could be generated: the generation threw, or
  gave the empty string. The client address is always determined.
\<close>

theorem no_valid_device_id_context:
  assumes "normalizeDeviceId (pickFirst (nullish (body_deviceId req) (query_deviceId req))) = None"
  shows "\<exists>clientIp. getClientIp req = Inr clientIp \<and>
           fst (classify env req) =
             (if truthy (parseCookies req COOKIE_NAME)
              then Inr \<lparr> key = ascii ''rl:cookie:'' @ the (parseCookies req COOKIE_NAME),
                         limit = 30, ttlSeconds = 3600 \<rparr>
              else (case new_cookie_id env of
                      Inr uuid \<Rightarrow>
                        (if uuid \<noteq> []
                         then Inr \<lparr> key = ascii ''rl:cookie:'' @ uuid,
                                    limit = 30, ttlSeconds = 3600 \<rparr>
                         else Inr \<lparr> key = ascii ''rl:ip:'' @ clientIp,
                                    limit = 20, ttlSeconds = 3600 \<rparr>)
                    | Inl e \<Rightarrow> Inr \<lparr> key = ascii ''rl:ip:'' @ clientIp,
                                     limit = 20, ttlSeconds = 3600 \<rparr>))"
proof -
  obtain ip where ip: "getClientIp req = Inr ip"
    using getClientIp_total by blast
  have "fst (classify env req) =
      (if truthy (parseCookies req COOKIE_NAME)
       then Inr \<lparr> key = ascii ''rl:cookie:'' @ the (parseCookies req COOKIE_NAME),
                  limit = 30, ttlSeconds = 3600 \<rparr>
       else (case new_cookie_id env of
               Inr uuid \<Rightarrow>
                 (if uuid \<noteq> []
                  then Inr \<lparr> key = ascii ''rl:cookie:'' @ uuid, limit = 30, ttlSeconds = 3600 \<rparr>
                  else Inr \<lparr> key = ascii ''rl:ip:'' @ ip, limit = 20, ttlSeconds = 3600 \<rparr>)
             | Inl e \<Rightarrow> Inr \<lparr> key = ascii ''rl:ip:'' @ ip, limit = 20, ttlSeconds = 3600 \<rparr>))"
    unfolding fst_classify rate_context_no_device [OF assms]
    by (auto simp: session_cookie_fst truthy_def ip split: sum.splits option.splits)
  with ip show ?thesis by blast
qed

theorem no_valid_device_id_context_witness:
  "(\<exists>clientIp. getClientIp (example_request (JString (ascii ''not-a-uuid'')) None) = Inr clientIp \<and>
      fst (classify (example_server unreachable_store GeminiRejects)
            (example_request (JString (ascii ''not-a-uuid'')) None)) =
        Inr \<lparr> key = ascii ''rl:cookie:'' @ example_uuid, limit = 30, ttlSeconds = 3600 \<rparr>) \<and>
   (\<exists>clientIp. getClientIp (example_request (JString (ascii ''not-a-uuid'')) None) = Inr clientIp \<and>
      fst (classify ((example_server unreachable_store GeminiRejects)
                       \<lparr> randomUUID := Some (Inl RuntimeError) \<rparr>)
            (example_request (JString (ascii ''not-a-uuid'')) None)) =
        Inr \<lparr> key = ascii ''rl:ip:'' @ clientIp, limit = 20, ttlSeconds = 3600 \<rparr>) \<and>
   (\<exists>clientIp. getClientIp (example_request (JString (ascii ''not-a-uuid''))
                               (Some (ascii ''theme=dark; ideaspark_id=abc''))) = Inr clientIp \<and>
      fst (classify (example_server unreachable_store GeminiRejects)
            (example_request (JString (ascii ''not-a-uuid''))
               (Some (ascii ''theme=dark; ideaspark_id=abc'')))) =
        Inr \<lparr> key = ascii ''rl:cookie:abc'', limit = 30, ttlSeconds = 3600 \<rparr>)"
proof -
  let ?req = "example_request (JString (ascii ''not-a-uuid'')) None"
  let ?req' = "example_request (JString (ascii ''not-a-uuid''))
                 (Some (ascii ''theme=dark; ideaspark_id=abc''))"
  let ?env = "example_server unreachable_store GeminiRejects"
  have d: "normalizeDeviceId (pickFirst (nullish (body_deviceId ?req) (query_deviceId ?req))) = None"
    "normalizeDeviceId (pickFirst (nullish (body_deviceId ?req') (query_deviceId ?req'))) = None"
    by (simp_all add: example_request_def pickFirst_def nullish_def not_a_uuid)
  have c: "parseCookies ?req COOKIE_NAME = None"
    by (simp add: parseCookies_def example_request_def truthy_def)
  have c': "parseCookies ?req' COOKIE_NAME = Some (ascii ''abc'')"
    by (simp add: parseCookies_def example_request_def truthy_def cookie_part_def trim_def
        isWhiteSpace_def COOKIE_NAME_def ascii_def)
  have g: "new_cookie_id ?env = Inr example_uuid"
    "new_cookie_id (?env\<lparr> randomUUID := Some (Inl RuntimeError) \<rparr>) = Inl RuntimeError"
    by (simp_all add: new_cookie_id_def example_server_def)
  have u: "example_uuid \<noteq> []"
    by (simp add: example_uuid_def ascii_def)
  show ?thesis
    using no_valid_device_id_context [OF d(1), of ?env]
      no_valid_device_id_context [OF d(1), of "?env\<lparr> randomUUID := Some (Inl RuntimeError) \<rparr>"]
      no_valid_device_id_context [OF d(2), of ?env]
    unfolding c c' g
    by (simp add: truthy_def u ascii_def)
qed
subsection \<open>The fixed-window limiter\<close>

lemma ceil_div_nonneg:
  assumes "0 \<le> a" and "0 < b"
  shows "0 \<le> ceil_div a b"
proof -
  have "0 \<le> real_of_int a / real_of_int b"
    using assms by simp
  then have "- 1 < real_of_int a / real_of_int b"
    by linarith
  then show ?thesis
    by (simp add: ceil_div_def)
qed

lemma fetch_pipeline_trace:
  "fetch_pipeline env commands tr = (Inr v, tr') \<Longrightarrow>
   redis_configured env \<and> tr' = tr @ [Upstash commands]"
  by (auto simp: fetch_pipeline_def split: if_splits fetch_result.splits json_body.splits)

lemma runUpstashPipeline_trace:
  "runUpstashPipeline env commands tr = (Inr v, tr') \<Longrightarrow>
   redis_configured env \<and> tr' = tr @ [Upstash commands]"
  by (auto simp: runUpstashPipeline_def dest: fetch_pipeline_trace
      split: prod.splits sum.splits option.splits)

lemma runUpstash_trace:
  "redis_configured env \<Longrightarrow>
   snd (runUpstash env command tr) = tr @ [Upstash [command]]"
  by (auto simp: runUpstash_def fetch_pipeline_def
      split: prod.splits sum.splits option.splits list.splits fetch_result.splits
        json_body.splits)

lemma enforce_unfold:
  assumes "runUpstashPipeline env [INCR (key context), TTL (key context)] tr = (Inr replies, tr1)"
    and "entry replies 0 = Finite count"
  shows "enforceRateLimit env context tr =
    (if count = 1 \<or> js_less (entry replies 1) 0
     then (case runUpstash env (EXPIRE (key context) (ttlSeconds context)) tr1 of
             (Inl e, tr2) \<Rightarrow> (Inl e, tr2)
           | (Inr x, tr2) \<Rightarrow>
               (Inr \<lparr> allowed = count \<le> limit context,
                      remainingMinutes = max 0 (ceil_div (ttlSeconds context) 60) \<rparr>, tr2))
     else (Inr \<lparr> allowed = count \<le> limit context,
                 remainingMinutes =
                   max 0 (ceil_div (case entry replies 1 of Finite t \<Rightarrow> t
                                    | _ \<Rightarrow> ttlSeconds context) 60) \<rparr>, tr1))"
  using assms
  by (auto simp: enforceRateLimit_def Let_def isFinite_def the_int_def js_less_def js_ge_def
      split: prod.splits sum.splits jsnum.splits)

lemma pipeline_answering:
  "runUpstashPipeline (example_server (answering replies) g) [INCR k, TTL k] tr =
     (Inr replies, tr @ [Upstash [INCR k, TTL k]])"
  by (simp add: runUpstashPipeline_def fetch_pipeline_def example_server_def answering_def)

lemma expire_answering:
  "runUpstash (example_server (answering replies) g) (EXPIRE k t) tr =
     (Inr (Finite 1), tr @ [Upstash [EXPIRE k t]])"
  by (simp add: runUpstash_def fetch_pipeline_def example_server_def answering_def)

text \<open>
  Claim C5. Let the store answer the pipeline with the post-increment count \<open>count\<close>
  (a finite number). Whenever \<open>enforceRateLimit\<close> returns, its \<open>allowed\<close> is
  \<open>count <= context.limit\<close>: true up to and including the limit, false from
  \<open>limit + 1\<close> on. It does return, unless the EXPIRE it has to issue (when the count
  is 1 or the time-to-live negative) fails.
\<close>

theorem allowed_iff_count_within_limit:
  assumes "runUpstashPipeline env [INCR (key context), TTL (key context)] tr = (Inr replies, tr1)"
    and "entry replies 0 = Finite count"
  shows "(\<forall>r tr'. enforceRateLimit env context tr = (Inr r, tr') \<longrightarrow>
            (allowed r \<longleftrightarrow> count \<le> limit context)) \<and>
         ((count = 1 \<or> js_less (entry replies 1) 0 \<longrightarrow>
             (\<exists>x tr2. runUpstash env (EXPIRE (key context) (ttlSeconds context)) tr1 =
                (Inr x, tr2))) \<longrightarrow>
          (\<exists>r tr'. enforceRateLimit env context tr = (Inr r, tr') \<and>
             (allowed r \<longleftrightarrow> count \<le> limit context)))"
proof (intro conjI allI impI)
  fix r tr'
  assume "enforceRateLimit env context tr = (Inr r, tr')"
  then show "allowed r \<longleftrightarrow> count \<le> limit context"
    unfolding enforce_unfold [OF assms]
    by (auto split: if_splits prod.splits sum.splits)
next
  assume ok: "count = 1 \<or> js_less (entry replies 1) 0 \<longrightarrow>
    (\<exists>x tr2. runUpstash env (EXPIRE (key context) (ttlSeconds context)) tr1 = (Inr x, tr2))"
  show "\<exists>r tr'. enforceRateLimit env context tr = (Inr r, tr') \<and>
      (allowed r \<longleftrightarrow> count \<le> limit context)"
  proof (cases "count = 1 \<or> js_less (entry replies 1) 0")
    case True
    with ok obtain x tr2 where
      "runUpstash env (EXPIRE (key context) (ttlSeconds context)) tr1 = (Inr x, tr2)"
      by blast
    with True show ?thesis
      unfolding enforce_unfold [OF assms] by simp
  next
    case False
    then show ?thesis
      unfolding enforce_unfold [OF assms] by simp
  qed
qed

theorem allowed_iff_count_within_limit_witness:
  "(\<exists>r tr'. enforceRateLimit (example_server (answering [Finite 50, Finite 1200]) GeminiRejects)
              example_context [] = (Inr r, tr') \<and> allowed r) \<and>
   (\<exists>r tr'. enforceRateLimit (example_server (answering [Finite 51, Finite 1200]) GeminiRejects)
              example_context [] = (Inr r, tr') \<and> \<not> allowed r) \<and>
   (\<exists>r tr'. enforceRateLimit (example_server (answering [Finite 1, Finite (- 1)]) GeminiRejects)
              example_context [] = (Inr r, tr') \<and> allowed r)"
  using
    allowed_iff_count_within_limit [OF pipeline_answering, of "[Finite 50, Finite 1200]" 50
      GeminiRejects example_context "[]"]
    allowed_iff_count_within_limit [OF pipeline_answering, of "[Finite 51, Finite 1200]" 51
      GeminiRejects example_context "[]"]
    allowed_iff_count_within_limit [OF pipeline_answering, of "[Finite 1, Finite (- 1)]" 1
      GeminiRejects example_context "[]"]
  by (simp add: entry_def js_less_def example_context_def expire_answering)
text \<open>
  Claim C6, as stated, fails in its second half. The store answers the pipeline with
  the count 2 and, for TTL, with an entry that is not a number (an error entry:
  \<open>Number(entry)\<close> is \<open>NaN\<close>). The count is not 1 and \<open>NaN < 0\<close> is false, so this is
  one of the other cases; the limiter issues no EXPIRE and returns 60 minutes, the
  minutes of \<open>context.ttlSeconds\<close>, which is not \<open>Math.ceil(NaN / 60)\<close>.
\<close>

theorem non_finite_ttl_falls_back:
  "entry [Finite 2, NaN] 0 = Finite 2 \<and>
   \<not> js_less (entry [Finite 2, NaN] 1) 0 \<and>
   enforceRateLimit (example_server (answering [Finite 2, NaN]) GeminiRejects)
     example_context [] =
     (Inr \<lparr> allowed = True, remainingMinutes = 60 \<rparr>,
      [Upstash [INCR (key example_context), TTL (key example_context)]]) \<and>
   Math_ceil_div (entry [Finite 2, NaN] 1) 60 = NaN \<and>
   Finite 60 \<noteq> Math_ceil_div (entry [Finite 2, NaN] 1) 60"
proof -
  have e: "entry [Finite 2, NaN] 0 = Finite 2" "entry [Finite 2, NaN] 1 = NaN"
    by (simp_all add: entry_def)
  have "enforceRateLimit (example_server (answering [Finite 2, NaN]) GeminiRejects)
      example_context [] =
    (Inr \<lparr> allowed = True, remainingMinutes = 60 \<rparr>,
     [Upstash [INCR (key example_context), TTL (key example_context)]])"
    unfolding enforce_unfold [OF pipeline_answering e(1)] e
    by (simp add: js_less_def example_context_def ceil_div_def)
  then show ?thesis
    by (simp add: entry_def js_less_def Math_ceil_div_def)
qed

text \<open>
  Claim C6, amended. Let the store answer the pipeline with a finite count, and let
  \<open>context.ttlSeconds\<close> be non-negative (it is 3600 in every context of the handler).
  When the count is 1 or the observed time-to-live is negative, the limiter issues
  \<open>EXPIRE key context.ttlSeconds\<close> as its next request; if that call fails the
  limiter fails with it, and otherwise it returns
  \<open>remainingMinutes = ceil(context.ttlSeconds / 60)\<close>. In every other case it issues
  no further request and returns \<open>ceil(ttl / 60)\<close> when the observed time-to-live is a
  finite number, and \<open>ceil(context.ttlSeconds / 60)\<close> when it is not (\<open>NaN\<close>,
  \<open>undefined\<close> or \<open>+Infinity\<close>).
\<close>

theorem expiry_and_remaining_minutes:
  assumes "runUpstashPipeline env [INCR (key context), TTL (key context)] tr = (Inr replies, tr1)"
    and "entry replies 0 = Finite count"
    and "0 \<le> ttlSeconds context"
  shows "(count = 1 \<or> js_less (entry replies 1) 0 \<longrightarrow>
            snd (enforceRateLimit env context tr) =
              tr1 @ [Upstash [EXPIRE (key context) (ttlSeconds context)]] \<and>
            (\<forall>e tr2. runUpstash env (EXPIRE (key context) (ttlSeconds context)) tr1 = (Inl e, tr2)
               \<longrightarrow> enforceRateLimit env context tr = (Inl e, tr2)) \<and>
            (\<forall>x tr2. runUpstash env (EXPIRE (key context) (ttlSeconds context)) tr1 = (Inr x, tr2)
               \<longrightarrow> (\<exists>r. enforceRateLimit env context tr = (Inr r, tr2) \<and>
                       remainingMinutes r = ceil_div (ttlSeconds context) 60))) \<and>
         (\<not> (count = 1 \<or> js_less (entry replies 1) 0) \<longrightarrow>
            (\<exists>r. enforceRateLimit env context tr = (Inr r, tr1) \<and>
               remainingMinutes r =
                 (case entry replies 1 of
                    Finite ttl \<Rightarrow> ceil_div ttl 60
                  | _ \<Rightarrow> ceil_div (ttlSeconds context) 60)))"
proof (intro conjI impI allI)
  assume c: "count = 1 \<or> js_less (entry replies 1) 0"
  have "redis_configured env"
    using runUpstashPipeline_trace [OF assms(1)] by simp
  then have "snd (runUpstash env (EXPIRE (key context) (ttlSeconds context)) tr1) =
      tr1 @ [Upstash [EXPIRE (key context) (ttlSeconds context)]]"
    by (rule runUpstash_trace)
  with c show "snd (enforceRateLimit env context tr) =
      tr1 @ [Upstash [EXPIRE (key context) (ttlSeconds context)]]"
    unfolding enforce_unfold [OF assms(1,2)]
    by (auto split: prod.splits sum.splits)
next
  fix e tr2
  assume "count = 1 \<or> js_less (entry replies 1) 0"
    and "runUpstash env (EXPIRE (key context) (ttlSeconds context)) tr1 = (Inl e, tr2)"
  then show "enforceRateLimit env context tr = (Inl e, tr2)"
    unfolding enforce_unfold [OF assms(1,2)] by simp
next
  fix x tr2
  assume "count = 1 \<or> js_less (entry replies 1) 0"
    and "runUpstash env (EXPIRE (key context) (ttlSeconds context)) tr1 = (Inr x, tr2)"
  moreover have "0 \<le> ceil_div (ttlSeconds context) 60"
    using assms(3) by (intro ceil_div_nonneg) simp_all
  ultimately show "\<exists>r. enforceRateLimit env context tr = (Inr r, tr2) \<and>
      remainingMinutes r = ceil_div (ttlSeconds context) 60"
    unfolding enforce_unfold [OF assms(1,2)] by simp
next
  assume n: "\<not> (count = 1 \<or> js_less (entry replies 1) 0)"
  have "0 \<le> ceil_div (ttlSeconds context) 60"
    using assms(3) by (intro ceil_div_nonneg) simp_all
  moreover have "0 \<le> ceil_div t 60" if "entry replies 1 = Finite t" for t
  proof -
    from n that have "0 \<le> t" by (simp add: js_less_def)
    then show ?thesis by (intro ceil_div_nonneg) simp_all
  qed
  ultimately show "\<exists>r. enforceRateLimit env context tr = (Inr r, tr1) \<and>
      remainingMinutes r =
        (case entry replies 1 of Finite ttl \<Rightarrow> ceil_div ttl 60
         | _ \<Rightarrow> ceil_div (ttlSeconds context) 60)"
    using n unfolding enforce_unfold [OF assms(1,2)]
    by (auto split: jsnum.splits)
qed

theorem expiry_and_remaining_minutes_witness:
  "snd (enforceRateLimit (example_server (answering [Finite 1, Finite (- 1)]) GeminiRejects)
          example_context []) =
     [Upstash [INCR (key example_context), TTL (key example_context)],
      Upstash [EXPIRE (key example_context) 3600]] \<and>
   (\<exists>r. enforceRateLimit (example_server (answering [Finite 1, Finite (- 1)]) GeminiRejects)
           example_context [] =
           (Inr r, [Upstash [INCR (key example_context), TTL (key example_context)],
                    Upstash [EXPIRE (key example_context) 3600]]) \<and>
         remainingMinutes r = 60) \<and>
   (\<exists>r. enforceRateLimit (example_server (answering [Finite 7, Finite 1234]) GeminiRejects)
           example_context [] =
           (Inr r, [Upstash [INCR (key example_context), TTL (key example_context)]]) \<and>
         remainingMinutes r = 21) \<and>
   (\<exists>r. enforceRateLimit (example_server (answering [Finite 7]) GeminiRejects)
           example_context [] =
           (Inr r, [Upstash [INCR (key example_context), TTL (key example_context)]]) \<and>
         remainingMinutes r = 60)"
  using
    expiry_and_remaining_minutes [OF pipeline_answering, of "[Finite 1, Finite (- 1)]" 1
      example_context GeminiRejects "[]"]
    expiry_and_remaining_minutes [OF pipeline_answering, of "[Finite 7, Finite 1234]" 7
      example_context GeminiRejects "[]"]
    expiry_and_remaining_minutes [OF pipeline_answering, of "[Finite 7]" 7
      example_context GeminiRejects "[]"]
  by (simp add: entry_def js_less_def example_context_def expire_answering ceil_div_def)
subsection \<open>The request gate\<close>

lemma classify_total: "\<exists>context. fst (classify env req) = Inr context"
  unfolding fst_classify
  using getClientIp_total [of req]
  by (auto simp: rate_context_def Let_def)

lemma handler_unfold:
  assumes "fst (classify env req) = Inr context"
  shows "handler env req =
    (let res = \<lparr> status = 200, body = None, set_cookie = None \<rparr>;
         res1 = (if truthy (snd (classify env req))
                 then res\<lparr> set_cookie := snd (classify env req) \<rparr> else res)
     in (case enforceRateLimit env context [] of
           (Inl e, tr) \<Rightarrow> (internal_error res1, tr)
         | (Inr rate, tr) \<Rightarrow>
             (if \<not> allowed rate
              then (res1\<lparr> status := 429,
                          body := Some (RateLimited (remainingMinutes rate)) \<rparr>, tr)
              else generate env res1 tr)))"
proof -
  obtain h where c: "classify env req = (Inr context, h)"
    using assms by (cases "classify env req") simp
  show ?thesis
    unfolding handler_def c by (simp add: Let_def split: prod.splits sum.splits)
qed

lemma fetch_pipeline_no_gemini:
  "Gemini \<notin> set tr \<Longrightarrow> Gemini \<notin> set (snd (fetch_pipeline env commands tr))"
  by (auto simp: fetch_pipeline_def split: fetch_result.splits json_body.splits)

lemma enforce_no_gemini:
  "Gemini \<notin> set tr \<Longrightarrow> Gemini \<notin> set (snd (enforceRateLimit env context tr))"
  using fetch_pipeline_no_gemini [of tr env "[INCR (key context), TTL (key context)]"]
    fetch_pipeline_no_gemini [of
      "snd (fetch_pipeline env [INCR (key context), TTL (key context)] tr)" env
      "[EXPIRE (key context) (ttlSeconds context)]"]
  by (auto simp: enforceRateLimit_def runUpstashPipeline_def runUpstash_def Let_def
      split: prod.splits sum.splits option.splits list.splits if_splits)

lemma createCookie_not_empty: "createCookie v \<noteq> []"
  by (simp add: createCookie_def COOKIE_NAME_def ascii_def)

lemma pending_header_truthy: "snd (classify env req) = Some h \<Longrightarrow> truthy (Some h)"
  unfolding snd_classify session_cookie_snd
  by (auto simp: truthy_def createCookie_not_empty split: if_splits sum.splits)

lemma generate_keeps_cookie: "set_cookie (fst (generate env res tr)) = set_cookie res"
  by (simp add: generate_def internal_error_def Let_def split: gemini_outcome.splits)

lemma generate_status:
  "status (fst (generate env res tr)) = 200 \<or> status (fst (generate env res tr)) = 500"
  by (simp add: generate_def internal_error_def Let_def split: gemini_outcome.splits)

lemma enforce_answering:
  assumes "entry replies 0 = Finite c"
  shows "enforceRateLimit (example_server (answering replies) g) context tr =
    (if c = 1 \<or> js_less (entry replies 1) 0
     then (Inr \<lparr> allowed = c \<le> limit context,
                 remainingMinutes = max 0 (ceil_div (ttlSeconds context) 60) \<rparr>,
           tr @ [Upstash [INCR (key context), TTL (key context)],
                 Upstash [EXPIRE (key context) (ttlSeconds context)]])
     else (Inr \<lparr> allowed = c \<le> limit context,
                 remainingMinutes =
                   max 0 (ceil_div (case entry replies 1 of Finite t \<Rightarrow> t
                                    | _ \<Rightarrow> ttlSeconds context) 60) \<rparr>,
           tr @ [Upstash [INCR (key context), TTL (key context)]]))"
  unfolding enforce_unfold [OF pipeline_answering assms] expire_answering
  by simp

lemma enforce_unreachable:
  "enforceRateLimit (example_server unreachable_store g) context tr =
     (Inl FetchRejected, tr @ [Upstash [INCR (key context), TTL (key context)]])"
  by (simp add: enforceRateLimit_def runUpstashPipeline_def fetch_pipeline_def
      example_server_def unreachable_store_def)

lemma first_contact_classify:
  "classify (example_server s g) (example_request JUndefined None) =
     (Inr \<lparr> key = ascii ''rl:cookie:'' @ example_uuid, limit = 30, ttlSeconds = 3600 \<rparr>,
      Some (createCookie example_uuid))"
proof -
  have n: "normalizeDeviceId JUndefined = None"
    by (simp add: normalizeDeviceId_def)
  have c: "parseCookies (example_request JUndefined None) COOKIE_NAME = None"
    by (simp add: parseCookies_def example_request_def truthy_def)
  have g: "new_cookie_id (example_server s g) = Inr example_uuid"
    by (simp add: new_cookie_id_def example_server_def)
  have "example_uuid \<noteq> []"
    by (simp add: example_uuid_def ascii_def)
  then show ?thesis
    by (simp add: classify_def example_request_def pickFirst_def nullish_def
        c [unfolded example_request_def] session_cookie_def g truthy_def
        rate_context_no_device [OF n])
qed

lemma runUpstash_fails_iff:
  "redis_configured env \<Longrightarrow>
   (\<exists>e. fst (runUpstash env command tr) = Inl e) \<longleftrightarrow>
     bad_reply (upstash env [command]) \<or> empty_reply (upstash env [command])"
  by (auto simp: runUpstash_def fetch_pipeline_def bad_reply_def empty_reply_def
      split: fetch_result.splits json_body.splits list.splits)

lemma pipeline_fails_iff:
  "redis_configured env \<Longrightarrow>
   (\<exists>e. fst (runUpstashPipeline env commands tr) = Inl e) \<longleftrightarrow> bad_reply (upstash env commands)"
  by (auto simp: runUpstashPipeline_def fetch_pipeline_def bad_reply_def
      split: fetch_result.splits json_body.splits)

lemma pipeline_replies:
  "redis_configured env \<Longrightarrow> upstash env commands = Response True st (Entries xs) \<Longrightarrow>
   runUpstashPipeline env commands tr = (Inr xs, tr @ [Upstash commands])"
  by (simp add: runUpstashPipeline_def fetch_pipeline_def)

lemma good_reply_entries:
  "\<not> bad_reply r \<Longrightarrow> \<exists>st xs. r = Response True st (Entries xs)"
  by (auto simp: bad_reply_def split: fetch_result.splits json_body.splits)

lemma store_fails_iff:
  "store_fails env context \<longleftrightarrow> (\<exists>e. fst (enforceRateLimit env context tr) = Inl e)"
proof (cases "redis_configured env")
  case False
  then show ?thesis
    by (simp add: store_fails_def enforceRateLimit_def runUpstashPipeline_def fetch_pipeline_def)
next
  case c: True
  let ?p = "[INCR (key context), TTL (key context)]"
  show ?thesis
  proof (cases "bad_reply (upstash env ?p)")
    case True
    then obtain e where "fst (runUpstashPipeline env ?p tr) = Inl e"
      using pipeline_fails_iff [OF c] by blast
    then have "fst (enforceRateLimit env context tr) = Inl e"
      by (cases "runUpstashPipeline env ?p tr") (simp add: enforceRateLimit_def)
    with True show ?thesis
      by (auto simp: store_fails_def)
  next
    case False
    then obtain st xs where r: "upstash env ?p = Response True st (Entries xs)"
      using good_reply_entries by blast
    have p: "runUpstashPipeline env ?p tr = (Inr xs, tr @ [Upstash ?p])"
      using c r by (rule pipeline_replies)
    show ?thesis
    proof (cases "entry xs 0")
      case (Finite count)
      let ?x = "EXPIRE (key context) (ttlSeconds context)"
      have s: "store_fails env context \<longleftrightarrow>
          (count = 1 \<or> js_less (entry xs 1) 0) \<and>
          (bad_reply (upstash env [?x]) \<or> empty_reply (upstash env [?x]))"
        using c False r Finite by (simp add: store_fails_def isFinite_def)
      have "(\<exists>e. fst (enforceRateLimit env context tr) = Inl e) \<longleftrightarrow>
          (count = 1 \<or> js_less (entry xs 1) 0) \<and>
          (\<exists>e. fst (runUpstash env ?x (tr @ [Upstash ?p])) = Inl e)"
        unfolding enforce_unfold [OF p Finite]
        by (auto split: prod.splits sum.splits)
      with s show ?thesis
        using runUpstash_fails_iff [OF c, of ?x] by simp
    qed (use c False r p in
      \<open>simp_all add: store_fails_def enforceRateLimit_def isFinite_def Let_def\<close>)
  qed
qed

lemma store_fails_unreachable: "store_fails (example_server unreachable_store g) context"
  by (simp add: store_fails_def bad_reply_def example_server_def unreachable_store_def)

lemma store_fails_expire:
  assumes "bad_reply failure"
  shows "store_fails (example_server (failing_expire failure [Finite 1, Finite (- 1)]) g) context"
  using assms
  by (simp add: store_fails_def bad_reply_def example_server_def failing_expire_def entry_def)
text \<open>
  Claim C4. Every request has a rate context. The limiter fails exactly when the store
  fails it: on the pipeline of INCR and TTL or, where the limiter has to send it, on
  the EXPIRE, the store is not configured or cannot be reached, answers with a status
  that is not OK, or sends a body that is not readable JSON or not an array (an empty
  one for the EXPIRE), or the counter it returns is not a finite number. In each of
  these cases the handler answers 500 with the body
  \<open>{error: "Internal Server Error."}\<close> and never calls the generation service. A normal
  deny is another outcome: when the limiter returns \<open>allowed = false\<close> the handler
  answers 429 with \<open>{error: "rate_limit", remaining}\<close>, and does not call the
  generation service either.
\<close>

theorem store_failure_is_internal_error:
  "\<exists>context. fst (classify env req) = Inr context \<and>
     (store_fails env context \<longleftrightarrow> (\<exists>e. fst (enforceRateLimit env context []) = Inl e)) \<and>
     (store_fails env context \<longrightarrow>
        status (fst (handler env req)) = 500 \<and>
        body (fst (handler env req)) = Some (ErrorMessage (ascii ''Internal Server Error.'')) \<and>
        Gemini \<notin> set (snd (handler env req))) \<and>
     (\<forall>r tr. enforceRateLimit env context [] = (Inr r, tr) \<and> \<not> allowed r \<longrightarrow>
        status (fst (handler env req)) = 429 \<and>
        body (fst (handler env req)) = Some (RateLimited (remainingMinutes r)) \<and>
        Gemini \<notin> set (snd (handler env req)))"
proof -
  obtain ctx where c: "fst (classify env req) = Inr ctx"
    using classify_total by blast
  have g: "Gemini \<notin> set (snd (enforceRateLimit env ctx []))"
    by (rule enforce_no_gemini) simp
  have i: "store_fails env ctx \<longleftrightarrow> (\<exists>e. fst (enforceRateLimit env ctx []) = Inl e)"
    by (rule store_fails_iff)
  have "status (fst (handler env req)) = 500 \<and>
      body (fst (handler env req)) = Some (ErrorMessage (ascii ''Internal Server Error.'')) \<and>
      Gemini \<notin> set (snd (handler env req))"
    if "store_fails env ctx"
  proof -
    from that i obtain e where "fst (enforceRateLimit env ctx []) = Inl e"
      by blast
    then obtain tr where e: "enforceRateLimit env ctx [] = (Inl e, tr)"
      by (cases "enforceRateLimit env ctx []") simp
    with g show ?thesis
      unfolding handler_unfold [OF c] by (simp add: Let_def internal_error_def)
  qed
  moreover have "status (fst (handler env req)) = 429 \<and>
      body (fst (handler env req)) = Some (RateLimited (remainingMinutes r)) \<and>
      Gemini \<notin> set (snd (handler env req))"
    if "enforceRateLimit env ctx [] = (Inr r, tr) \<and> \<not> allowed r" for r tr
    using that g unfolding handler_unfold [OF c] by (simp add: Let_def)
  ultimately show ?thesis
    using c i by blast
qed

theorem store_failure_is_internal_error_witness:
  "status (fst (handler (example_server unreachable_store (GeminiText (Some (ascii ''Take a walk.''))))
                  (example_request JUndefined None))) = 500 \<and>
   body (fst (handler (example_server unreachable_store (GeminiText (Some (ascii ''Take a walk.''))))
                (example_request JUndefined None))) =
     Some (ErrorMessage (ascii ''Internal Server Error.'')) \<and>
   Gemini \<notin> set (snd (handler (example_server unreachable_store
                                  (GeminiText (Some (ascii ''Take a walk.''))))
                         (example_request JUndefined None))) \<and>
   status (fst (handler (example_server (failing_expire FetchRejects [Finite 1, Finite (- 1)])
                          (GeminiText (Some (ascii ''Take a walk.''))))
                  (example_request JUndefined None))) = 500 \<and>
   Gemini \<notin> set (snd (handler (example_server (failing_expire FetchRejects [Finite 1, Finite (- 1)])
                                  (GeminiText (Some (ascii ''Take a walk.''))))
                         (example_request JUndefined None))) \<and>
   status (fst (handler (example_server
                          (failing_expire (Response False 503 JsonRejects) [Finite 1, Finite (- 1)])
                          (GeminiText (Some (ascii ''Take a walk.''))))
                  (example_request JUndefined None))) = 500 \<and>
   status (fst (handler (example_server (answering [Finite 31, Finite 1200])
                          (GeminiText (Some (ascii ''Take a walk.''))))
                  (example_request JUndefined None))) = 429 \<and>
   body (fst (handler (example_server (answering [Finite 31, Finite 1200])
                        (GeminiText (Some (ascii ''Take a walk.''))))
                (example_request JUndefined None))) = Some (RateLimited 20)"
proof -
  let ?g = "GeminiText (Some (ascii ''Take a walk.''))"
  let ?req = "example_request JUndefined None"
  let ?ctx = "\<lparr> key = ascii ''rl:cookie:'' @ example_uuid, limit = 30, ttlSeconds = 3600 \<rparr>"
  have e: "enforceRateLimit (example_server (answering [Finite 31, Finite 1200]) ?g) ?ctx [] =
      (Inr \<lparr> allowed = False, remainingMinutes = 20 \<rparr>,
       [Upstash [INCR (key ?ctx), TTL (key ?ctx)]])"
    by (subst enforce_answering [of _ 31]) (simp_all add: entry_def js_less_def ceil_div_def)
  have f: "store_fails (example_server (failing_expire FetchRejects [Finite 1, Finite (- 1)]) ?g)
      ?ctx"
    "store_fails
       (example_server (failing_expire (Response False 503 JsonRejects) [Finite 1, Finite (- 1)]) ?g)
       ?ctx"
    by (rule store_fails_expire, simp add: bad_reply_def)+
  show ?thesis
    using store_failure_is_internal_error [of "example_server unreachable_store ?g" ?req]
      store_failure_is_internal_error [of
        "example_server (failing_expire FetchRejects [Finite 1, Finite (- 1)]) ?g" ?req]
      store_failure_is_internal_error [of
        "example_server (failing_expire (Response False 503 JsonRejects) [Finite 1, Finite (- 1)]) ?g"
        ?req]
      store_failure_is_internal_error [of "example_server (answering [Finite 31, Finite 1200]) ?g"
        ?req]
    unfolding first_contact_classify
    by (auto simp: store_fails_unreachable f e)
qed

lemma handler_status:
  "status (fst (handler env req)) = 200 \<or> status (fst (handler env req)) = 429 \<or>
   status (fst (handler env req)) = 500"
proof -
  obtain ctx where c: "fst (classify env req) = Inr ctx"
    using classify_total by blast
  show ?thesis
    unfolding handler_unfold [OF c]
    using generate_status
    by (auto simp: Let_def internal_error_def split: prod.splits sum.splits)
qed

text \<open>
  Claim C8. Whenever the classifier leaves a pending Set-Cookie header \<open>h\<close>, the
  response of the handler carries it, whatever the outcome; the status of the
  response is 200, 429 or 500. The header is pending on first contact: when the
  request has no ideaspark_id cookie and the generation of a new identifier
  \<open>uuid\<close> succeeds, it is \<open>createCookie(uuid)\<close>.
\<close>

theorem pending_cookie_is_attached:
  "(\<forall>h. snd (classify env req) = Some h \<longrightarrow> set_cookie (fst (handler env req)) = Some h) \<and>
   (\<not> truthy (parseCookies req COOKIE_NAME) \<longrightarrow>
      (\<forall>uuid. new_cookie_id env = Inr uuid \<longrightarrow>
         snd (classify env req) = Some (createCookie uuid))) \<and>
   (status (fst (handler env req)) = 200 \<or> status (fst (handler env req)) = 429 \<or>
    status (fst (handler env req)) = 500)"
proof (intro conjI allI impI)
  fix h
  assume h: "snd (classify env req) = Some h"
  obtain ctx where c: "fst (classify env req) = Inr ctx"
    using classify_total by blast
  have t: "truthy (Some h)"
    using h by (rule pending_header_truthy)
  show "set_cookie (fst (handler env req)) = Some h"
    unfolding handler_unfold [OF c] h
    using t
    by (simp add: Let_def internal_error_def generate_keeps_cookie split: prod.splits sum.splits)
next
  fix uuid
  assume "\<not> truthy (parseCookies req COOKIE_NAME)" and "new_cookie_id env = Inr uuid"
  then show "snd (classify env req) = Some (createCookie uuid)"
    by (simp add: snd_classify session_cookie_snd)
next
  show "status (fst (handler env req)) = 200 \<or> status (fst (handler env req)) = 429 \<or>
      status (fst (handler env req)) = 500"
    by (rule handler_status)
qed

theorem pending_cookie_is_attached_witness:
  "set_cookie (fst (handler (example_server (answering [Finite 1, Finite (- 1)])
                              (GeminiText (Some (ascii ''Take a walk.''))))
                      (example_request JUndefined None))) = Some (createCookie example_uuid) \<and>
   status (fst (handler (example_server (answering [Finite 1, Finite (- 1)])
                          (GeminiText (Some (ascii ''Take a walk.''))))
                  (example_request JUndefined None))) = 200 \<and>
   set_cookie (fst (handler (example_server (answering [Finite 31, Finite 1200])
                              (GeminiText (Some (ascii ''Take a walk.''))))
                      (example_request JUndefined None))) = Some (createCookie example_uuid) \<and>
   status (fst (handler (example_server (answering [Finite 31, Finite 1200])
                          (GeminiText (Some (ascii ''Take a walk.''))))
                  (example_request JUndefined None))) = 429 \<and>
   set_cookie (fst (handler (example_server unreachable_store
                              (GeminiText (Some (ascii ''Take a walk.''))))
                      (example_request JUndefined None))) = Some (createCookie example_uuid) \<and>
   status (fst (handler (example_server unreachable_store
                          (GeminiText (Some (ascii ''Take a walk.''))))
                  (example_request JUndefined None))) = 500"
proof -
  let ?g = "GeminiText (Some (ascii ''Take a walk.''))"
  let ?req = "example_request JUndefined None"
  let ?ctx = "\<lparr> key = ascii ''rl:cookie:'' @ example_uuid, limit = 30, ttlSeconds = 3600 \<rparr>"
  have c: "fst (classify (example_server s ?g) ?req) = Inr ?ctx" for s
    by (simp add: first_contact_classify)
  have a: "status (fst (handler (example_server (answering [Finite 1, Finite (- 1)]) ?g) ?req)) = 200"
    unfolding handler_unfold [OF c]
    by (subst enforce_answering [of _ 1])
      (simp_all add: entry_def js_less_def Let_def generate_def example_server_def truthy_def
        trim_def isWhiteSpace_def ascii_def)
  have d: "status (fst (handler (example_server (answering [Finite 31, Finite 1200]) ?g) ?req)) = 429"
    unfolding handler_unfold [OF c]
    by (subst enforce_answering [of _ 31]) (simp_all add: entry_def js_less_def Let_def)
  have e: "status (fst (handler (example_server unreachable_store ?g) ?req)) = 500"
    unfolding handler_unfold [OF c] enforce_unreachable
    by (simp add: Let_def internal_error_def)
  show ?thesis
    using
      pending_cookie_is_attached [of "example_server (answering [Finite 1, Finite (- 1)]) ?g" ?req]
      pending_cookie_is_attached [of "example_server (answering [Finite 31, Finite 1200]) ?g" ?req]
      pending_cookie_is_attached [of "example_server unreachable_store ?g" ?req]
    unfolding first_contact_classify a d e
    by simp
qed
subsection \<open>The local usage guard\<close>

lemma kept_timestamps:
  "map the_int (filter (\<lambda>timestamp. isFinite timestamp \<and> js_ge timestamp (now - WINDOW_MS)) parsed) =
   filter (recent now) (map the_int (filter isFinite parsed))"
  by (induction parsed)
    (auto simp: isFinite_def js_ge_def the_int_def recent_def WINDOW_MS_def
      split: jsnum.splits)

lemma loadTimestamps_sorted_recent:
  "w \<noteq> StorageThrows \<Longrightarrow>
   loadTimestamps w now = Inr (sort (filter (recent now) (stored_timestamps w)))"
  by (simp add: loadTimestamps_def getStorage_def stored_timestamps_def kept_timestamps Let_def
      split: window_storage.splits rate_item.splits)

lemma loadTimestamps_returns:
  "loadTimestamps w now = Inr timestamps \<Longrightarrow> w \<noteq> StorageThrows"
  by (auto simp: loadTimestamps_def getStorage_def)

lemma canGenerateIdea_returns:
  "canGenerateIdea w now = Inr v \<Longrightarrow> w \<noteq> StorageThrows"
  by (auto simp: canGenerateIdea_def dest: loadTimestamps_returns split: sum.splits)

lemma canGenerateIdea_unfold:
  "w \<noteq> StorageThrows \<Longrightarrow>
   canGenerateIdea w now =
     Inr \<lparr> allowed_locally = length (filter (recent now) (stored_timestamps w)) < 20,
           remaining =
             (if length (filter (recent now) (stored_timestamps w)) < 20 then 0
              else minutesUntilReset (sort (filter (recent now) (stored_timestamps w))) now) \<rparr>"
  by (simp add: canGenerateIdea_def loadTimestamps_sorted_recent LIMIT_def Let_def)

lemma recent_within:
  "\<forall>t\<in>set ts. t \<le> now \<Longrightarrow> filter (within_window now) ts = filter (recent now) ts"
  by (induction ts) (auto simp: within_window_def recent_def)

lemma sorted_first_Min:
  fixes xs :: "int list"
  shows "sorted xs \<Longrightarrow> xs \<noteq> [] \<Longrightarrow> xs ! 0 = Min (set xs)"
  by (cases xs) (auto intro!: Min_eqI [symmetric])

lemma ceil_div_pos: "0 < a \<Longrightarrow> 0 < b \<Longrightarrow> 0 < ceil_div a b"
  by (simp add: ceil_div_def)

lemma ceil_div_nonpos: "a \<le> 0 \<Longrightarrow> 0 < b \<Longrightarrow> ceil_div a b \<le> 0"
  by (simp add: ceil_div_def ceiling_le_iff divide_le_0_iff)

lemma minutesUntilReset_clamped:
  "LIMIT \<le> length timestamps \<Longrightarrow>
   minutesUntilReset timestamps now =
     max 0 (ceil_div (3600000 - (now - timestamps ! 0)) 60000)"
  using ceil_div_pos [of "3600000 - (now - timestamps ! 0)" 60000]
    ceil_div_nonpos [of "3600000 - (now - timestamps ! 0)" 60000]
  by (auto simp: minutesUntilReset_def WINDOW_MS_def Let_def)

text \<open>
  Claim C7, as stated, fails: the guard asks of a stored timestamp only that it is
  not older than the window, so timestamps later than \<open>now\<close> are counted. With a log
  of twenty timestamps written while the clock was a day ahead, none of them lies
  in the trailing window of 3 600 000 ms before \<open>now\<close>, and the check denies, with
  1500 remaining minutes.
\<close>

theorem future_timestamps_are_counted:
  "canGenerateIdea (Storage (ParsedArray future_log)) 1700003600000 =
     Inr \<lparr> allowed_locally = False, remaining = 1500 \<rparr> \<and>
   length (filter (within_window 1700003600000)
             (stored_timestamps (Storage (ParsedArray future_log)))) = 0 \<and>
   length (filter (within_window 1700003600000)
             (stored_timestamps (Storage (ParsedArray future_log)))) < 20"
proof -
  have s: "stored_timestamps (Storage (ParsedArray future_log)) = replicate 20 1700090000000"
    by (simp add: stored_timestamps_def future_log_def isFinite_def the_int_def)
  have r: "filter (recent 1700003600000) (replicate 20 1700090000000) =
      replicate 20 1700090000000"
    by (simp add: recent_def)
  have m: "minutesUntilReset (replicate 20 1700090000000) 1700003600000 = 1500"
    by (simp add: minutesUntilReset_def LIMIT_def WINDOW_MS_def Let_def ceil_div_def)
  have "canGenerateIdea (Storage (ParsedArray future_log)) 1700003600000 =
      Inr \<lparr> allowed_locally = False, remaining = 1500 \<rparr>"
    by (subst canGenerateIdea_unfold) (simp_all add: s r m)
  moreover have "filter (within_window 1700003600000) (replicate 20 1700090000000) = []"
    by (simp add: within_window_def)
  ultimately show ?thesis
    by (simp add: s)
qed

text \<open>
  Claim C7, amended. Where reading \<open>window.localStorage\<close> does not throw, the check
  of the local guard returns. Whenever it returns, \<open>allowed\<close> is true exactly when
  strictly fewer than 20 of the stored timestamps are recent, that is, not older
  than 3 600 000 ms (\<open>timestamp >= now - 3600000\<close>; a timestamp later than \<open>now\<close>
  counts as well), with 0 remaining minutes; when no stored timestamp is later than
  \<open>now\<close>, these are the stored timestamps within the trailing window of 3 600 000 ms
  before \<open>now\<close>. When \<open>allowed\<close> is false, the remaining minutes are
  \<open>ceil((3600000 - (now - oldest)) / 60000)\<close> for the oldest of the recent
  timestamps, clamped at 0, and so never negative. The clamp is that of
  \<open>minutesUntilReset\<close>, which for any list of at least 20 timestamps, also one whose
  window has expired, returns the maximum of 0 and that quotient.
\<close>

theorem local_guard_check:
  "(w \<noteq> StorageThrows \<longrightarrow> (\<exists>v. canGenerateIdea w now = Inr v)) \<and>
   (\<forall>v. canGenerateIdea w now = Inr v \<longrightarrow>
      (allowed_locally v \<longleftrightarrow> length (filter (recent now) (stored_timestamps w)) < 20) \<and>
      ((\<forall>t\<in>set (stored_timestamps w). t \<le> now) \<longrightarrow>
         (allowed_locally v \<longleftrightarrow>
            length (filter (within_window now) (stored_timestamps w)) < 20)) \<and>
      (allowed_locally v \<longrightarrow> remaining v = 0) \<and>
      (\<not> allowed_locally v \<longrightarrow>
         filter (recent now) (stored_timestamps w) \<noteq> [] \<and>
         remaining v =
           max 0 \<lceil>real_of_int
                    (3600000 - (now - Min (set (filter (recent now) (stored_timestamps w)))))
                  / 60000\<rceil> \<and>
         remaining v =
           \<lceil>real_of_int
               (3600000 - (now - Min (set (filter (recent now) (stored_timestamps w)))))
             / 60000\<rceil> \<and>
         0 \<le> remaining v)) \<and>
   (\<forall>timestamps. 20 \<le> length timestamps \<longrightarrow>
      minutesUntilReset timestamps now =
        max 0 \<lceil>real_of_int (3600000 - (now - timestamps ! 0)) / 60000\<rceil>)"
proof -
  let ?recent = "filter (recent now) (stored_timestamps w)"
  have e: "\<exists>v. canGenerateIdea w now = Inr v" if "w \<noteq> StorageThrows"
    using canGenerateIdea_unfold [OF that, of now] by simp
  have m: "minutesUntilReset timestamps now =
      max 0 \<lceil>real_of_int (3600000 - (now - timestamps ! 0)) / 60000\<rceil>"
    if "20 \<le> length timestamps" for timestamps
    using minutesUntilReset_clamped [of timestamps now] that
    by (simp add: LIMIT_def ceil_div_def)
  have p: "(allowed_locally v \<longleftrightarrow> length ?recent < 20) \<and>
      ((\<forall>t\<in>set (stored_timestamps w). t \<le> now) \<longrightarrow>
         (allowed_locally v \<longleftrightarrow>
            length (filter (within_window now) (stored_timestamps w)) < 20)) \<and>
      (allowed_locally v \<longrightarrow> remaining v = 0) \<and>
      (\<not> allowed_locally v \<longrightarrow>
         ?recent \<noteq> [] \<and>
         remaining v = max 0 \<lceil>real_of_int (3600000 - (now - Min (set ?recent))) / 60000\<rceil> \<and>
         remaining v = \<lceil>real_of_int (3600000 - (now - Min (set ?recent))) / 60000\<rceil> \<and>
         0 \<le> remaining v)"
    if v: "canGenerateIdea w now = Inr v" for v
  proof -
    from v have w: "w \<noteq> StorageThrows"
      by (rule canGenerateIdea_returns)
    have a: "allowed_locally v \<longleftrightarrow> length ?recent < 20"
      and r: "remaining v =
        (if length ?recent < 20 then 0 else minutesUntilReset (sort ?recent) now)"
      using v unfolding canGenerateIdea_unfold [OF w] by auto
    have b: "allowed_locally v \<longleftrightarrow>
        length (filter (within_window now) (stored_timestamps w)) < 20"
      if "\<forall>t\<in>set (stored_timestamps w). t \<le> now"
      using a recent_within [OF that] by simp
    have z: "remaining v = 0" if "allowed_locally v"
      using that a r by simp
    have d: "?recent \<noteq> [] \<and>
        remaining v = max 0 \<lceil>real_of_int (3600000 - (now - Min (set ?recent))) / 60000\<rceil> \<and>
        remaining v = \<lceil>real_of_int (3600000 - (now - Min (set ?recent))) / 60000\<rceil> \<and>
        0 \<le> remaining v"
      if n: "\<not> allowed_locally v"
    proof -
      from n a have l: "20 \<le> length ?recent" by simp
      then have ne: "?recent \<noteq> []" by auto
      from ne have "sort ?recent \<noteq> []"
        by (metis length_0_conv length_sort)
      then have "sort ?recent ! 0 = Min (set (sort ?recent))"
        by (intro sorted_first_Min) simp_all
      then have o: "sort ?recent ! 0 = Min (set ?recent)" by simp
      have r': "remaining v = minutesUntilReset (sort ?recent) now"
        using l r by simp
      have "Min (set ?recent) \<in> set ?recent"
        using ne by (metis Min_in List.finite_set set_empty)
      then have "now - Min (set ?recent) \<le> 3600000"
        by (simp add: recent_def)
      then have "0 \<le> \<lceil>real_of_int (3600000 - (now - Min (set ?recent))) / 60000\<rceil>"
        using ceil_div_nonneg [of "3600000 - (now - Min (set ?recent))" 60000]
        by (simp add: ceil_div_def)
      moreover have "remaining v =
          max 0 \<lceil>real_of_int (3600000 - (now - Min (set ?recent))) / 60000\<rceil>"
        unfolding r' using m [of "sort ?recent"] l o by simp
      ultimately show ?thesis
        using ne by simp
    qed
    from a b z d show ?thesis by blast
  qed
  from e p m show ?thesis by blast
qed

theorem local_guard_check_witness:
  "(\<exists>v. canGenerateIdea (Storage (ParsedArray example_log)) 1700003600000 = Inr v \<and>
        \<not> allowed_locally v \<and> remaining v = 11) \<and>
   length (filter (within_window 1700003600000)
             (stored_timestamps (Storage (ParsedArray example_log)))) = 20 \<and>
   (\<exists>v. canGenerateIdea (Storage ParseThrows) 1700003600000 = Inr v \<and>
        allowed_locally v \<and> remaining v = 0) \<and>
   (\<exists>v. canGenerateIdea StorageMissing 1700003600000 = Inr v \<and>
        allowed_locally v \<and> remaining v = 0)"
proof -
  have s: "stored_timestamps (Storage (ParsedArray example_log)) =
      1600000000000 # 1700000600001 # replicate 19 1700003000000"
    by (simp add: stored_timestamps_def example_log_def isFinite_def the_int_def)
  have r: "filter (recent 1700003600000)
      (1600000000000 # 1700000600001 # replicate 19 1700003000000) =
    1700000600001 # replicate 19 1700003000000"
    by (simp add: recent_def)
  have i: "filter (within_window 1700003600000)
      (1600000000000 # 1700000600001 # replicate 19 1700003000000) =
    1700000600001 # replicate 19 1700003000000"
    by (simp add: within_window_def)
  have t: "stored_timestamps (Storage ParseThrows) = []" "stored_timestamps StorageMissing = []"
    by (simp_all add: stored_timestamps_def)
  show ?thesis
    using local_guard_check [of "Storage (ParsedArray example_log)" 1700003600000]
      local_guard_check [of "Storage ParseThrows" 1700003600000]
      local_guard_check [of StorageMissing 1700003600000]
    unfolding s r i t
    by auto
qed

subsection \<open>The device identity resolver\<close>

lemma valid_uuid_third: "isValidUuid v \<Longrightarrow> is_hex (v ! 2)"
proof -
  assume "isValidUuid v"
  then have "UUID_REGEX_test v"
    by (simp add: isValidUuid_def UUID_REGEX_test_def)
  then obtain a r where v: "v = a @ r" and a: "length a = 8" "list_all is_hex a"
    unfolding uuid_shape by blast
  from a have "is_hex (a ! 2)"
    by (simp add: list_all_length)
  with v a show ?thesis
    by (simp add: nth_append)
qed

lemma fallback_never_valid:
  "randomUUID b = None \<Longrightarrow>
   \<exists>fresh. fresh_device_id b = Inr fresh \<and> fresh \<noteq> [] \<and> \<not> isValidUuid fresh"
  using valid_uuid_third [of "ascii ''device-'' @ decimal (date_now b) @ ascii ''-'' @ random36 b"]
  by (auto simp: fresh_device_id_def ascii_def is_hex_def)

lemma decimal_example:
  "decimal 1700000000000 = ascii ''1700000000000''"
  "decimal 1700000000001 = ascii ''1700000000001''"
  by (simp_all add: decimal.simps ascii_def)

text \<open>
  Claim C3 fails on the fallback of \<open>getDeviceId\<close>. In a browser whose storage works
  and is empty and that has no \<open>crypto.randomUUID\<close>, the function returns and persists
  \<open>device-1700000000000-k3j9x2ab\<close>, an identifier that its own \<open>isValidUuid\<close> rejects;
  at the next call the stored identifier is therefore replaced by yet another one.
\<close>

theorem fallback_device_id_is_not_a_uuid:
  "fst (getDeviceId (example_browser Map.empty None None)) =
     ascii ''device-1700000000000-k3j9x2ab'' \<and>
   \<not> isValidUuid (fst (getDeviceId (example_browser Map.empty None None))) \<and>
   items (the (localStorage (snd (getDeviceId (example_browser Map.empty None None)))))
     STORAGE_KEY = Some (ascii ''device-1700000000000-k3j9x2ab'') \<and>
   fst (getDeviceId ((snd (getDeviceId (example_browser Map.empty None None)))
                       \<lparr> date_now := 1700000000001 \<rparr>)) =
     ascii ''device-1700000000001-k3j9x2ab''"
proof -
  let ?b = "example_browser Map.empty None None"
  have f: "fresh_device_id ?b = Inr (ascii ''device-1700000000000-k3j9x2ab'')"
    by (simp add: fresh_device_id_def example_browser_def decimal_example ascii_def)
  have g: "getDeviceId ?b =
      (ascii ''device-1700000000000-k3j9x2ab'',
       ?b\<lparr> localStorage :=
             Some \<lparr> items = [STORAGE_KEY \<mapsto> ascii ''device-1700000000000-k3j9x2ab''],
                    getItem_throws = False, setItem_throws = False \<rparr> \<rparr>)"
    unfolding getDeviceId_def f
    by (simp add: example_browser_def truthy_def)
  have n: "\<not> isValidUuid (ascii ''device-1700000000000-k3j9x2ab'')"
    using valid_uuid_third [of "ascii ''device-1700000000000-k3j9x2ab''"]
    by (auto simp: ascii_def is_hex_def)
  have f': "fresh_device_id ((snd (getDeviceId ?b))\<lparr> date_now := 1700000000001 \<rparr>) =
      Inr (ascii ''device-1700000000001-k3j9x2ab'')"
    unfolding g
    by (simp add: fresh_device_id_def example_browser_def decimal_example ascii_def)
  have "fst (getDeviceId ((snd (getDeviceId ?b))\<lparr> date_now := 1700000000001 \<rparr>)) =
      ascii ''device-1700000000001-k3j9x2ab''"
    unfolding getDeviceId_def [of "(snd (getDeviceId ?b))\<lparr> date_now := 1700000000001 \<rparr>"] f'
    unfolding g
    by (simp add: example_browser_def truthy_def n)
  with g n show ?thesis
    by simp
qed
lemma isValidUuid_eq: "isValidUuid v \<longleftrightarrow> UUID_REGEX_test v"
  by (simp add: isValidUuid_def UUID_REGEX_test_def)

theorem fallback_device_id_is_not_a_uuid_witness:
  "fst (getDeviceId (example_browser Map.empty None None)) \<noteq> [] \<and>
   \<not> UUID_REGEX_test (fst (getDeviceId (example_browser Map.empty None None)))"
proof -
  have a: "fst (getDeviceId (example_browser Map.empty None None)) =
      ascii ''device-1700000000000-k3j9x2ab''"
    using fallback_device_id_is_not_a_uuid by (rule conjunct1)
  have b: "\<not> isValidUuid (fst (getDeviceId (example_browser Map.empty None None)))"
    using fallback_device_id_is_not_a_uuid [THEN conjunct2] by (rule conjunct1)
  from a have "fst (getDeviceId (example_browser Map.empty None None)) \<noteq> []"
    by (simp add: ascii_def)
  moreover from b
  have "\<not> UUID_REGEX_test (fst (getDeviceId (example_browser Map.empty None None)))"
    by (simp only: isValidUuid_eq not_False_eq_True)
  ultimately show ?thesis ..
qed

lemma getDeviceId_valid_with_randomUUID:
  assumes "randomUUID b = Some (Inr u)" and "isValidUuid u"
  shows "fst (getDeviceId b) = [] \<or> isValidUuid (fst (getDeviceId b))"
  using assms
  by (auto simp: getDeviceId_def fresh_device_id_def Let_def truthy_def split: option.splits)

lemma getDeviceId_frame:
  "has_window (snd (getDeviceId b)) = has_window b"
  "fingerprintjs_load (snd (getDeviceId b)) = fingerprintjs_load b"
  "subtle_digest (snd (getDeviceId b)) = subtle_digest b"
  by (simp_all add: getDeviceId_def Let_def split: sum.splits)

lemma fingerprintPromise_resolves:
  "\<exists>fingerprintId. (case fingerprintPromise b of Some p \<Rightarrow> p | None \<Rightarrow> Inr []) = Inr fingerprintId"
  by (auto simp: fingerprintPromise_def split: sum.splits agent.splits)

lemma hex_digit_lower:
  "d < 16 \<Longrightarrow> (48 \<le> hex_digit d \<and> hex_digit d \<le> 57) \<or> (97 \<le> hex_digit d \<and> hex_digit d \<le> 102)"
  by (auto simp: hex_digit_def)

lemma toString16_small: "n < 16 \<Longrightarrow> toString16 n = [hex_digit n]"
  by (simp add: toString16.simps)

lemma toString16_two:
  assumes "16 \<le> n" and "n < 256"
  shows "toString16 n = [hex_digit (n div 16), hex_digit (n mod 16)]"
proof -
  from assms(2) have "n div 16 < 16" by simp
  then show ?thesis
    using assms(1) by (subst toString16.simps) (simp add: toString16_small)
qed

lemma hex_of_byte:
  fixes x :: "8 word"
  shows "length (padStart 2 48 (toString16 (unat x))) = 2 \<and>
         list_all (\<lambda>c. (48 \<le> c \<and> c \<le> 57) \<or> (97 \<le> c \<and> c \<le> 102))
           (padStart 2 48 (toString16 (unat x)))"
proof -
  have b: "unat x < 256"
    using unsigned_less [of x, where ?'a = nat] by simp
  show ?thesis
  proof (cases "unat x < 16")
    case True
    then show ?thesis
      using hex_digit_lower [of "unat x"] by (simp add: toString16_small padStart_def)
  next
    case False
    then have t: "toString16 (unat x) = [hex_digit (unat x div 16), hex_digit (unat x mod 16)]"
      using b by (intro toString16_two) simp_all
    from b have "unat x div 16 < 16" by simp
    then show ?thesis
      unfolding t
      using hex_digit_lower [of "unat x div 16"] hex_digit_lower [of "unat x mod 16"]
      by (simp add: padStart_def)
  qed
qed

lemma hex_of_bytes:
  fixes bytes :: "8 word list"
  shows "length (concat (map (\<lambda>x. padStart 2 48 (toString16 (unat x))) bytes)) = 2 * length bytes \<and>
         list_all (\<lambda>c. (48 \<le> c \<and> c \<le> 57) \<or> (97 \<le> c \<and> c \<le> 102))
           (concat (map (\<lambda>x. padStart 2 48 (toString16 (unat x))) bytes))"
  using hex_of_byte by (induction bytes) auto
lemma after_getDeviceId:
  "fingerprintPromise (snd (getDeviceId b)) = fingerprintPromise b"
  "sha256 (snd (getDeviceId b)) input = sha256 b input"
  by (simp_all add: fingerprintPromise_def sha256_def getDeviceId_frame)

lemma lower_hex_is_hex:
  "list_all (\<lambda>c. (48 \<le> c \<and> c \<le> 57) \<or> (97 \<le> c \<and> c \<le> 102)) s \<Longrightarrow> list_all is_hex s"
  by (auto simp: list_all_iff is_hex_def)

lemma sha256_of_32_bytes:
  assumes "subtle_digest b = Some digest" and "digest input = Inr bytes"
    and "length bytes = 32"
  shows "\<exists>hash. sha256 b input = Inr hash \<and>
           hash = concat (map (\<lambda>x. padStart 2 48 (toString16 (unat x))) bytes) \<and>
           hash \<noteq> [] \<and> HEX_64_REGEX_test hash"
proof -
  let ?hash = "concat (map (\<lambda>x. padStart 2 48 (toString16 (unat x))) bytes)"
  have s: "sha256 b input = Inr ?hash"
    using assms(1,2) by (simp add: sha256_def)
  have l: "length ?hash = 64" and h: "list_all is_hex ?hash"
    using hex_of_bytes [of bytes] assms(3) by (simp_all add: lower_hex_is_hex)
  from l have "?hash \<noteq> []"
    by (metis list.size(3) zero_neq_numeral)
  with s l h show ?thesis
    by (simp add: hex64_shape)
qed

text \<open>
  Claim C9. \<open>getUniqueDeviceId\<close> never rejects. When \<open>getDeviceId\<close> yields the empty
  string it returns the empty string. When \<open>getDeviceId\<close> yields a non-empty
  identifier the result is non-empty: the fingerprint always resolves, and the
  result is the hash of \<open>baseId|fingerprint\<close> when \<open>sha256\<close> returns a non-empty one,
  and the bare identifier when \<open>sha256\<close> rejects or returns the empty string (no
  \<open>crypto.subtle\<close>). When the digest succeeds with its 32 bytes the result is their
  hexadecimal encoding, two lower-case digits for each byte, which matches the
  64-hex pattern.
\<close>

theorem unique_device_id_never_rejects:
  assumes "getDeviceId b = (baseId, b')"
  shows "(baseId = [] \<longrightarrow> getUniqueDeviceId b = (Inr [], b')) \<and>
         (baseId \<noteq> [] \<longrightarrow>
            (\<exists>fingerprintId r.
               (case fingerprintPromise b of Some p \<Rightarrow> p | None \<Rightarrow> Inr []) = Inr fingerprintId \<and>
               getUniqueDeviceId b = (Inr r, b') \<and> r \<noteq> [] \<and>
               (case sha256 b (baseId @ ascii ''|'' @ fingerprintId) of
                  Inl e \<Rightarrow> r = baseId
                | Inr hash \<Rightarrow> r = (if hash \<noteq> [] then hash else baseId)) \<and>
               (\<forall>digest bytes.
                  subtle_digest b = Some digest \<and>
                  digest (baseId @ ascii ''|'' @ fingerprintId) = Inr bytes \<and>
                  length bytes = 32 \<longrightarrow>
                  r = concat (map (\<lambda>x. padStart 2 48 (toString16 (unat x))) bytes) \<and>
                  HEX_64_REGEX_test r)))"
proof (intro conjI impI)
  assume "baseId = []"
  with assms show "getUniqueDeviceId b = (Inr [], b')"
    by (simp add: getUniqueDeviceId_def)
next
  assume ne: "baseId \<noteq> []"
  obtain fingerprintId where
    f: "(case fingerprintPromise b of Some p \<Rightarrow> p | None \<Rightarrow> Inr []) = Inr fingerprintId"
    using fingerprintPromise_resolves by blast
  from assms have b': "b' = snd (getDeviceId b)" by simp
  let ?combined = "baseId @ ascii ''|'' @ fingerprintId"
  define r where "r = (case sha256 b ?combined of
      Inl e \<Rightarrow> baseId
    | Inr hash \<Rightarrow> if hash \<noteq> [] then hash else baseId)"
  have fp: "fingerprintPromise b' = fingerprintPromise b"
    unfolding b' by (rule after_getDeviceId(1))
  have sh: "sha256 b' input = sha256 b input" for input
    unfolding b' by (rule after_getDeviceId(2))
  have u: "getUniqueDeviceId b = (Inr r, b')"
    unfolding getUniqueDeviceId_def assms
    using ne f
    by (simp add: fp sh r_def Let_def split: sum.splits)
  have n: "r \<noteq> []"
    using ne by (simp add: r_def split: sum.splits)
  have c: "case sha256 b ?combined of
      Inl e \<Rightarrow> r = baseId
    | Inr hash \<Rightarrow> r = (if hash \<noteq> [] then hash else baseId)"
    by (simp add: r_def split: sum.splits)
  have d: "r = concat (map (\<lambda>x. padStart 2 48 (toString16 (unat x))) bytes) \<and>
      HEX_64_REGEX_test r"
    if "subtle_digest b = Some digest \<and> digest ?combined = Inr bytes \<and> length bytes = 32"
    for digest bytes
    using sha256_of_32_bytes [of b digest ?combined bytes] that
    by (auto simp: r_def)
  from f u n c d show "\<exists>fingerprintId r.
      (case fingerprintPromise b of Some p \<Rightarrow> p | None \<Rightarrow> Inr []) = Inr fingerprintId \<and>
      getUniqueDeviceId b = (Inr r, b') \<and> r \<noteq> [] \<and>
      (case sha256 b (baseId @ ascii ''|'' @ fingerprintId) of
         Inl e \<Rightarrow> r = baseId
       | Inr hash \<Rightarrow> r = (if hash \<noteq> [] then hash else baseId)) \<and>
      (\<forall>digest bytes.
         subtle_digest b = Some digest \<and>
         digest (baseId @ ascii ''|'' @ fingerprintId) = Inr bytes \<and>
         length bytes = 32 \<longrightarrow>
         r = concat (map (\<lambda>x. padStart 2 48 (toString16 (unat x))) bytes) \<and>
         HEX_64_REGEX_test r)"
    by blast
qed

lemma example_uuid_valid: "isValidUuid example_uuid"
  by code_simp

lemma returning_browser:
  "getDeviceId (example_browser returning_storage u d) =
     (example_uuid, example_browser returning_storage u d)"
  using example_uuid_valid
  by (simp add: getDeviceId_def example_browser_def returning_storage_def truthy_def
      example_uuid_def ascii_def)

lemma constant_digest_hex:
  "sha256 (example_browser s u (Some constant_digest)) input =
     Inr (ascii ''5a5a5a5a5a5a5a5a5a5a5a5a5a5a5a5a5a5a5a5a5a5a5a5a5a5a5a5a5a5a5a5a'')"
proof -
  have "unat (90 :: 8 word) = 90" by simp
  then have "padStart 2 48 (toString16 (unat (90 :: 8 word))) = [53, 97]"
    by (simp add: toString16_two hex_digit_def padStart_def)
  moreover have "concat (replicate 32 [53, 97 :: nat]) =
      ascii ''5a5a5a5a5a5a5a5a5a5a5a5a5a5a5a5a5a5a5a5a5a5a5a5a5a5a5a5a5a5a5a5a''"
    by code_simp
  ultimately show ?thesis
    by (simp add: sha256_def example_browser_def constant_digest_def)
qed

theorem unique_device_id_never_rejects_witness:
  "fst (getUniqueDeviceId (example_browser returning_storage None (Some constant_digest))) =
     Inr (ascii ''5a5a5a5a5a5a5a5a5a5a5a5a5a5a5a5a5a5a5a5a5a5a5a5a5a5a5a5a5a5a5a5a'') \<and>
   fst (getUniqueDeviceId (example_browser returning_storage None (Some rejecting_digest))) =
     Inr example_uuid \<and>
   fst (getUniqueDeviceId (example_browser returning_storage None None)) = Inr example_uuid \<and>
   fst (getUniqueDeviceId ((example_browser returning_storage None None)
                             \<lparr> has_window := False \<rparr>)) = Inr []"
proof -
  have r: "sha256 (example_browser returning_storage None (Some rejecting_digest)) input =
      Inl RuntimeError" for input
    by (simp add: sha256_def example_browser_def rejecting_digest_def)
  have n: "sha256 (example_browser returning_storage None None) input = Inr []" for input
    by (simp add: sha256_def example_browser_def)
  have w: "getDeviceId ((example_browser returning_storage None None)\<lparr> has_window := False \<rparr>) =
      ([], (example_browser returning_storage None None)\<lparr> has_window := False \<rparr>)"
    by (simp add: getDeviceId_def)
  have u: "example_uuid \<noteq> []"
    by (simp add: example_uuid_def ascii_def)
  show ?thesis
    using
      unique_device_id_never_rejects [OF returning_browser, of None "Some constant_digest"]
      unique_device_id_never_rejects [OF returning_browser, of None "Some rejecting_digest"]
      unique_device_id_never_rejects [OF returning_browser, of None None]
      unique_device_id_never_rejects [OF w]
    unfolding constant_digest_hex r n
    by (auto simp: u ascii_def)
qed

end
